theory Spec2Isabelle
  imports Main
begin

section \<open>Exceptions and results\<close>

text \<open>
  The deployment scripts are Python. Every call that can raise is modelled as returning
  a value of \<open>exn + 'a\<close>: \<open>Inl e\<close> is "raised \<open>e\<close>", \<open>Inr v\<close> is "returned \<open>v\<close>".
  The exception classes are the ones the scripts name in their \<open>except\<close> clauses and
  the ones their own handlers can raise; \<open>OtherException\<close> stands for any further
  subclass of Python's \<open>Exception\<close> (one without an attribute \<open>response\<close>).
  Writing a line to the terminal is not modelled; what the printing helpers do with
  their arguments before they print is.
\<close>

datatype exn =
    CalledProcessError "string option" "string option" string
  | ClientError string string
  | HTTPClientError string
  | JSONDecodeError string
  | OSError string
  | UnicodeDecodeError string
  | HTTPError nat string
  | URLError string
  | RequestException string
  | AttributeError string
  | OtherException string


text \<open>
  The attribute \<open>response\<close> of an exception object: a dictionary for \<open>ClientError\<close>;
  present but not a dictionary (\<open>None\<close>, or a response object of \<open>requests\<close>) for
  \<open>HTTPClientError\<close> and \<open>RequestException\<close>; absent for the others.
\<close>

fun response_is_no_dict :: "exn \<Rightarrow> bool" where
  "response_is_no_dict (HTTPClientError msg) = True"
| "response_is_no_dict (RequestException msg) = True"
| "response_is_no_dict e = False"

section \<open>The stage runner of \<open>update_aws_deployment.py\<close>\<close>

text \<open>
  A stage is a pair of a label and a bound method \<open>fn\<close>. Calling \<open>fn()\<close> reads and
  writes the deployer object and the outside world; both are the state \<open>'s\<close>. The call
  returns a boolean or raises.
\<close>

type_synonym 's action = "'s \<Rightarrow> (exn + bool) \<times> 's"

type_synonym 's stage = "string \<times> 's action"

text \<open>
  The loop of \<open>UpdateDeployer.run\<close> (lines 1096-1104):
  \<^verbatim>\<open>
  all_passed = True
  failed_at  = None
  for label, fn in stages:
      ok = fn()
      if not ok:
          all_passed = False
          failed_at  = label
          break
  \<close>
  The result holds \<open>(all_passed, failed_at)\<close>, or the exception that a stage let escape.
  The second component lists, in order, every call \<open>fn()\<close> that returned, with its label
  and its result; the third is the state after the loop.
\<close>

fun stage_loop ::
  "'s stage list \<Rightarrow> 's \<Rightarrow> (exn + bool \<times> string option) \<times> (string \<times> bool) list \<times> 's" where
  "stage_loop [] s = (Inr (True, None), [], s)"
| "stage_loop ((label, fn) # rest) s =
     (case fn s of
        (Inl e, s') \<Rightarrow> (Inl e, [], s')
      | (Inr ok, s') \<Rightarrow>
          if \<not> ok then (Inr (False, Some label), [(label, False)], s')
          else (case stage_loop rest s' of
                  (r, called, s'') \<Rightarrow> (r, (label, True) # called, s'')))"

record pipeline_report =
  all_passed :: bool
  failed_at :: "string option"
  stage_results :: "(string \<times> bool) list"

text \<open>
  \<open>UpdateDeployer.run\<close> (lines 1073-1151): the pre-flight check gates the loop; the
  summary that is printed shows \<open>failed_at\<close>, the value returned is \<open>all_passed\<close>.
\<close>

definition run ::
  "'s action \<Rightarrow> 's stage list \<Rightarrow> 's \<Rightarrow> (exn + pipeline_report) \<times> 's" where
  "run preflight_check stages s =
     (case preflight_check s of
        (Inl e, s') \<Rightarrow> (Inl e, s')
      | (Inr ok, s') \<Rightarrow>
          if \<not> ok then
            (Inr \<lparr>all_passed = False, failed_at = None, stage_results = []\<rparr>, s')
          else (case stage_loop stages s' of
                  (Inl e, called, s'') \<Rightarrow> (Inl e, s'')
                | (Inr (passed, failed), called, s'') \<Rightarrow>
                    (Inr \<lparr>all_passed = passed, failed_at = failed,
                          stage_results = called\<rparr>, s'')))"


text \<open>
  \<open>stages_ok stages s\<close> is \<open>Some s'\<close> when every stage of the list, called in order from
  state \<open>s\<close>, returns \<open>True\<close>, leaving state \<open>s'\<close>; it is \<open>None\<close> otherwise.
\<close>

fun stages_ok :: "'s stage list \<Rightarrow> 's \<Rightarrow> 's option" where
  "stages_ok [] s = Some s"
| "stages_ok ((label, fn) # rest) s =
     (case fn s of
        (Inr True, s') \<Rightarrow> stages_ok rest s'
      | _ \<Rightarrow> None)"

text \<open>Three stages that log their own invocation in the state: A and C succeed, B fails.\<close>

definition stage_A :: "string list action" where
  "stage_A log = (Inr True, log @ [''A''])"

definition stage_B :: "string list action" where
  "stage_B log = (Inr False, log @ [''B''])"

definition stage_C :: "string list action" where
  "stage_C log = (Inr True, log @ [''C''])"

definition preflight_pass :: "'s action" where
  "preflight_pass s = (Inr True, s)"

definition abc_stages :: "string list stage list" where
  "abc_stages = [(''A'', stage_A), (''B'', stage_B), (''C'', stage_C)]"

section \<open>Calls that may raise, over a state\<close>

text \<open>
  A Python call is a function from the state before to the outcome and the state after.
  \<open>andthen\<close> is sequencing (an exception skips the rest), \<open>try_except\<close> is
  \<^verbatim>\<open>try: m  except Exception as e: h(e)\<close>; a handler that only catches some
  exceptions re-raises the others.
\<close>

type_synonym ('s, 'a) io = "'s \<Rightarrow> (exn + 'a) \<times> 's"

definition ret :: "'a \<Rightarrow> ('s, 'a) io" where
  "ret x s = (Inr x, s)"

definition raise :: "exn \<Rightarrow> ('s, 'a) io" where
  "raise e s = (Inl e, s)"

definition andthen :: "('s, 'a) io \<Rightarrow> ('a \<Rightarrow> ('s, 'b) io) \<Rightarrow> ('s, 'b) io" where
  "andthen m f s = (case m s of (Inl e, s') \<Rightarrow> (Inl e, s') | (Inr x, s') \<Rightarrow> f x s')"

definition try_except :: "('s, 'a) io \<Rightarrow> (exn \<Rightarrow> ('s, 'a) io) \<Rightarrow> ('s, 'a) io" where
  "try_except m h s = (case m s of (Inl e, s') \<Rightarrow> h e s' | (Inr x, s') \<Rightarrow> (Inr x, s'))"

definition modify :: "('s \<Rightarrow> 's) \<Rightarrow> ('s, unit) io" where
  "modify f s = (Inr (), f s)"

section \<open>The cloud API and the subprocess launcher\<close>

text \<open>
  The boto3 clients and \<open>subprocess.run\<close> are not part of the repository: they are
  parameters of the model. A request names the client method and the arguments that
  vary; the outside world is a state \<open>'w\<close> that a call may change. The string returned
  is the field of the response that the script reads (\<open>repositoryUri\<close>, \<open>Role.Arn\<close>,
  \<open>FunctionArn\<close>, \<open>FunctionUrl\<close>); it is unused for the other calls.
\<close>

datatype request =
    HeadBucket string
  | CreateBucket string "string option"
  | PutBucketVersioning string
  | PutBucketEncryption string
  | PutBucketTagging string
  | CreateRepository string
  | DescribeRepositories string
  | CreateRole string
  | AttachRolePolicy string string
  | PutRolePolicy string string
  | GetRole string
  | CreateFunction string string string
  | UpdateFunctionCode string string
  | WaitFunctionUpdated string
  | UpdateFunctionConfiguration string "string option"
  | GetFunction string
  | CreateFunctionUrlConfig string
  | AddPermission string string
  | GetFunctionUrlConfig string

type_synonym 'w client = "request \<Rightarrow> 'w \<Rightarrow> (exn + string) \<times> 'w"

text \<open>
  \<open>subprocess.run(cmd, check=True, ...)\<close>: returns the captured \<open>(stdout, stderr)\<close> when
  the command exits with 0, raises \<open>CalledProcessError\<close> when it exits with another
  status, and raises an \<open>OSError\<close> when the program cannot be started. With
  \<open>text=True\<close> the output is decoded before the status is looked at, and output that
  cannot be decoded raises \<open>UnicodeDecodeError\<close>. A command given as one shell string
  is the one-element list.
\<close>

type_synonym 'w subprocess = "string list \<Rightarrow> 'w \<Rightarrow> (exn + string \<times> string) \<times> 'w"

text \<open>Every object of the scripts is modelled together with the world it acts on.\<close>

record 'w python_object =
  world :: 'w

record 'w deployer = "'w python_object" +
  ecr_uri :: "string option"
  image_uri :: "string option"

definition call ::
  "'w client \<Rightarrow> request \<Rightarrow> (('w, 'z) python_object_scheme, string) io" where
  "call api req self =
     (case api req (world self) of (r, w') \<Rightarrow> (r, self\<lparr>world := w'\<rparr>))"

definition subprocess_run ::
  "'w subprocess \<Rightarrow> string list \<Rightarrow> (('w, 'z) python_object_scheme, string \<times> string) io" where
  "subprocess_run sh cmd self =
     (case sh cmd (world self) of (r, w') \<Rightarrow> (r, self\<lparr>world := w'\<rparr>))"

text \<open>An f-string shows \<open>None\<close> as the text \<open>None\<close>.\<close>

fun fmt :: "string option \<Rightarrow> string" where
  "fmt None = ''None''"
| "fmt (Some s) = s"

text \<open>Python's truth value of an \<open>Optional[str]\<close>: \<open>None\<close> and the empty string are false.\<close>

fun truthy :: "string option \<Rightarrow> bool" where
  "truthy None = False"
| "truthy (Some s) = (s \<noteq> [])"


text \<open>
  boto3 validates the parameters of a request before it sends it: \<open>None\<close> where a
  string is required raises \<open>ParamValidationError\<close> (not a \<open>ClientError\<close>).
\<close>

fun param :: "string option \<Rightarrow> (('w, 'z) python_object_scheme, string) io" where
  "param None = raise (OtherException ''ParamValidationError'')"
| "param (Some s) = ret s"

text \<open>
  \<open>print_fail(message, error)\<close> (\<open>deploy_to_lambda.py\<close>, lines 98-107) and
  \<open>StageReporter.fail\<close> (\<open>update_aws_deployment.py\<close>, lines 144-161): when the error
  has an attribute \<open>response\<close> they call \<open>error.response.get\<close>, which raises
  \<open>AttributeError\<close> unless the response is a dictionary.
\<close>

fun print_fail :: "exn option \<Rightarrow> ('s, unit) io" where
  "print_fail None = ret ()"
| "print_fail (Some error) =
     (if response_is_no_dict error
      then raise (AttributeError ''NoneType object has no attribute get'')
      else ret ())"




section \<open>\<open>deploy_to_lambda.py\<close>: the class \<open>LambdaDeployer\<close>\<close>

definition AWS_REGION :: string where
  "AWS_REGION = ''us-west-2''"

definition AWS_ACCOUNT :: string where
  "AWS_ACCOUNT = ''415740581749''"

definition ECR_REPO_NAME :: string where
  "ECR_REPO_NAME = ''python-repl-container-lambda''"

definition S3_BUCKET_NAME :: string where
  "S3_BUCKET_NAME = ''code-canvas-astro-db''"

definition LAMBDA_FUNCTION_NAME :: string where
  "LAMBDA_FUNCTION_NAME = ''code-canvas-astro-lambda''"

definition IMAGE_TAG :: string where
  "IMAGE_TAG = ''v1.2''"


record deployment_result =
  success :: bool
  s3_bucket :: "string option"
  ecr_repository :: "string option"
  result_image_uri :: "string option"
  function_arn :: "string option"
  function_url :: "string option"
  failed_step :: "string option"
  error :: "string option"

record 'w lambda_deployer = "'w deployer" +
  s3_bucket_created :: bool

type_synonym ('w, 'a) step = "('w lambda_deployer, 'a) io"

text \<open>
  \<open>create_s3_bucket\<close> (lines 121-186). \<open>head_bucket\<close> succeeds: the bucket is reused.
  It raises \<open>ClientError\<close> with code 404: the bucket is created and configured. Any
  other exception, also one raised while creating, reaches the outer handler, which
  calls \<open>print_fail\<close> with it and returns \<open>False\<close>.
\<close>

definition create_s3_bucket :: "'w client \<Rightarrow> ('w, bool) step" where
  "create_s3_bucket api =
     try_except
       (try_except
          (andthen (call api (HeadBucket S3_BUCKET_NAME)) (\<lambda>_.
           andthen (modify (\<lambda>self. self\<lparr>s3_bucket_created := True\<rparr>)) (\<lambda>_.
           ret True)))
          (\<lambda>e. case e of
             ClientError error_code msg \<Rightarrow>
               if error_code = ''404'' then
                 andthen (if AWS_REGION = ''us-east-1''
                          then call api (CreateBucket S3_BUCKET_NAME None)
                          else call api (CreateBucket S3_BUCKET_NAME (Some AWS_REGION))) (\<lambda>_.
                 andthen (call api (PutBucketVersioning S3_BUCKET_NAME)) (\<lambda>_.
                 andthen (call api (PutBucketEncryption S3_BUCKET_NAME)) (\<lambda>_.
                 andthen (call api (PutBucketTagging S3_BUCKET_NAME)) (\<lambda>_.
                 andthen (modify (\<lambda>self. self\<lparr>s3_bucket_created := True\<rparr>)) (\<lambda>_.
                 ret True)))))
               else raise e
           | _ \<Rightarrow> raise e))
       (\<lambda>e. andthen (print_fail (Some e)) (\<lambda>_. ret False))"

text \<open>\<open>create_ecr_repository\<close> (lines 192-222).\<close>

definition create_ecr_repository :: "'w client \<Rightarrow> ('w, bool) step" where
  "create_ecr_repository api =
     try_except
       (andthen
          (try_except
             (andthen (call api (CreateRepository ECR_REPO_NAME)) (\<lambda>uri.
              modify (\<lambda>self. self\<lparr>ecr_uri := Some uri\<rparr>)))
             (\<lambda>e. case e of
                ClientError code msg \<Rightarrow>
                  if code = ''RepositoryAlreadyExistsException'' then
                    andthen (call api (DescribeRepositories ECR_REPO_NAME)) (\<lambda>uri.
                    modify (\<lambda>self. self\<lparr>ecr_uri := Some uri\<rparr>))
                  else raise e
              | _ \<Rightarrow> raise e)) (\<lambda>_.
        andthen (modify (\<lambda>self. self\<lparr>image_uri := Some (fmt (ecr_uri self) @ '':'' @ IMAGE_TAG)\<rparr>)) (\<lambda>_.
        ret True)))
       (\<lambda>e. andthen (print_fail (Some e)) (\<lambda>_. ret False))"


text \<open>
  \<open>create_lambda_execution_role\<close> (lines 294-402) returns the role's ARN, or \<open>None\<close>
  after any exception that is not the recovered \<open>EntityAlreadyExists\<close>.
\<close>

definition role_name :: string where
  "role_name = LAMBDA_FUNCTION_NAME @ ''-role''"

definition create_lambda_execution_role :: "'w client \<Rightarrow> ('w, string option) step" where
  "create_lambda_execution_role api =
     try_except
       (try_except
          (andthen (call api (CreateRole role_name)) (\<lambda>role_arn.
           andthen (call api (AttachRolePolicy role_name
                      ''arn:aws:iam::aws:policy/service-role/AWSLambdaBasicExecutionRole'')) (\<lambda>_.
           andthen (call api (PutRolePolicy role_name ''S3DatabaseAccessPolicy'')) (\<lambda>_.
           ret (Some role_arn)))))
          (\<lambda>e. case e of
             ClientError code msg \<Rightarrow>
               if code = ''EntityAlreadyExists'' then
                 andthen (call api (GetRole role_name)) (\<lambda>role_arn.
                 andthen (call api (PutRolePolicy role_name ''S3DatabaseAccessPolicy'')) (\<lambda>_.
                 ret (Some role_arn)))
               else raise e
           | _ \<Rightarrow> raise e))
       (\<lambda>e. andthen (print_fail (Some e)) (\<lambda>_. ret None))"

text \<open>
  \<open>create_or_update_lambda_function\<close> (lines 408-482). The image is
  \<open>self.image_uri\<close>, which boto3 requires to be a string.
\<close>

definition create_or_update_lambda_function ::
  "'w client \<Rightarrow> string \<Rightarrow> ('w, string option) step" where
  "create_or_update_lambda_function api role_arn =
     try_except
       (andthen
          (try_except
             (andthen (\<lambda>self. param (image_uri self) self) (\<lambda>image.
              call api (CreateFunction LAMBDA_FUNCTION_NAME role_arn image)))
             (\<lambda>e. case e of
                ClientError code msg \<Rightarrow>
                  if code = ''ResourceConflictException'' then
                    andthen (\<lambda>self. param (image_uri self) self) (\<lambda>image.
                    andthen (call api (UpdateFunctionCode LAMBDA_FUNCTION_NAME image)) (\<lambda>_.
                    andthen (call api (WaitFunctionUpdated LAMBDA_FUNCTION_NAME)) (\<lambda>_.
                    andthen (call api
                               (UpdateFunctionConfiguration LAMBDA_FUNCTION_NAME (Some role_arn))) (\<lambda>_.
                    andthen (call api (WaitFunctionUpdated LAMBDA_FUNCTION_NAME)) (\<lambda>_.
                    call api (GetFunction LAMBDA_FUNCTION_NAME))))))
                  else raise e
              | _ \<Rightarrow> raise e)) (\<lambda>function_arn.
        ret (Some function_arn)))
       (\<lambda>e. andthen (print_fail (Some e)) (\<lambda>_. ret None))"

text \<open>
  \<open>create_function_url\<close> (lines 488-535). The inner handler swallows a conflict of
  \<open>add_permission\<close>; what it re-raises is raised inside the outer \<open>try\<close>.
\<close>

definition create_function_url :: "'w client \<Rightarrow> ('w, string option) step" where
  "create_function_url api =
     try_except
       (try_except
          (andthen (call api (CreateFunctionUrlConfig LAMBDA_FUNCTION_NAME)) (\<lambda>url.
           andthen (try_except
                      (andthen (call api (AddPermission LAMBDA_FUNCTION_NAME
                                            ''FunctionURLAllowPublicAccess'')) (\<lambda>_. ret ()))
                      (\<lambda>e. case e of
                         ClientError code msg \<Rightarrow>
                           if code \<noteq> ''ResourceConflictException'' then raise e else ret ()
                       | _ \<Rightarrow> raise e)) (\<lambda>_.
           ret (Some url))))
          (\<lambda>e. case e of
             ClientError code msg \<Rightarrow>
               if code = ''ResourceConflictException'' then
                 andthen (call api (GetFunctionUrlConfig LAMBDA_FUNCTION_NAME)) (\<lambda>url.
                 ret (Some url))
               else raise e
           | _ \<Rightarrow> raise e))
       (\<lambda>e. andthen (print_fail (Some e)) (\<lambda>_. ret None))"


text \<open>
  \<open>deploy\<close> (lines 541-618). Its state is the local dictionary \<open>deployment_result\<close>
  together with the object: the exception handler returns the dictionary as the steps
  before the exception left it.
\<close>

type_synonym ('w, 'a) deploying = "(deployment_result \<times> 'w lambda_deployer, 'a) io"

definition step :: "('w, 'a) step \<Rightarrow> ('w, 'a) deploying" where
  "step m s = (case m (snd s) of (x, self') \<Rightarrow> (x, (fst s, self')))"
















text \<open>An API without connection: every request raises botocore's connection error.\<close>

definition disconnected_api :: "unit client" where
  "disconnected_api req w = (Inl (HTTPClientError ''Could not connect to the endpoint URL''), w)"

section \<open>\<open>deploy_lambda.py\<close> and \<open>deploy_to_apprunner.py\<close>\<close>

text \<open>
  \<open>AWSDeployer.create_lambda_function\<close> (\<open>deploy_lambda.py\<close>, lines 184-214), with
  that script's function name. It has no outer handler: other exceptions propagate.
\<close>

definition AWSDeployer_LAMBDA_FUNCTION_NAME :: string where
  "AWSDeployer_LAMBDA_FUNCTION_NAME = ''lambda-python-repl''"

definition create_lambda_function :: "'w client \<Rightarrow> string \<Rightarrow> ('w deployer, string) io" where
  "create_lambda_function api role_arn =
     try_except
       (andthen (\<lambda>self. param (image_uri self) self) (\<lambda>image.
        call api (CreateFunction AWSDeployer_LAMBDA_FUNCTION_NAME role_arn image)))
       (\<lambda>e. case e of
          ClientError code msg \<Rightarrow>
            if code = ''ResourceConflictException'' then
              andthen (\<lambda>self. param (image_uri self) self) (\<lambda>image.
              andthen (call api (UpdateFunctionCode AWSDeployer_LAMBDA_FUNCTION_NAME image)) (\<lambda>_.
              call api (GetFunction AWSDeployer_LAMBDA_FUNCTION_NAME)))
            else raise e
        | _ \<Rightarrow> raise e)"

text \<open>
  \<open>AppRunnerDeployer.create_ecr_repository\<close> (\<open>deploy_to_apprunner.py\<close>, lines
  104-128); the repository name and the image tag are those of \<open>deploy_to_lambda.py\<close>.
  It returns \<open>self.ecr_uri\<close>.
\<close>

definition apprunner_create_ecr_repository :: "'w client \<Rightarrow> ('w deployer, string option) io" where
  "apprunner_create_ecr_repository api =
     andthen
       (try_except
          (andthen (call api (CreateRepository ECR_REPO_NAME)) (\<lambda>uri.
           modify (\<lambda>self. self\<lparr>ecr_uri := Some uri\<rparr>)))
          (\<lambda>e. case e of
             ClientError code msg \<Rightarrow>
               if code = ''RepositoryAlreadyExistsException'' then
                 andthen (call api (DescribeRepositories ECR_REPO_NAME)) (\<lambda>uri.
                 modify (\<lambda>self. self\<lparr>ecr_uri := Some uri\<rparr>))
               else raise e
           | _ \<Rightarrow> raise e)) (\<lambda>_.
     andthen (modify (\<lambda>self. self\<lparr>image_uri := Some (fmt (ecr_uri self) @ '':'' @ IMAGE_TAG)\<rparr>)) (\<lambda>_.
     (\<lambda>self. (Inr (ecr_uri self), self))))"

section \<open>A reference cloud\<close>

text \<open>
  Modelled from the spec: the cloud resource API of its section 6 (create, describe/get,
  update), which is an external service and not code of this repository. Resources are
  stored by name. Creating a name that exists is rejected with the service's
  already-exists code and changes nothing; creating a new name stores the resource under
  an identifier derived from the name; describing returns the stored identifier; the
  configuration calls succeed and change no identifier.
\<close>

record cloud =
  buckets :: "string list"
  repositories :: "(string \<times> string) list"
  roles :: "(string \<times> string) list"
  lambda_functions :: "(string \<times> string) list"
  function_urls :: "(string \<times> string) list"
  permissions :: "(string \<times> string) list"

definition lookup :: "(string \<times> string) list \<Rightarrow> string \<Rightarrow> string \<Rightarrow> cloud \<Rightarrow> (exn + string) \<times> cloud" where
  "lookup table name missing w =
     (case map_of table name of
        Some ident \<Rightarrow> (Inr ident, w)
      | None \<Rightarrow> (Inl (ClientError missing ''not found''), w))"

fun cloud_api :: "cloud client" where
  "cloud_api (HeadBucket b) w =
     (if b \<in> set (buckets w) then (Inr [], w) else (Inl (ClientError ''404'' ''Not Found''), w))"
| "cloud_api (CreateBucket b location) w =
     (if b \<in> set (buckets w)
      then (Inl (ClientError ''BucketAlreadyOwnedByYou'' ''bucket exists''), w)
      else (Inr [], w\<lparr>buckets := b # buckets w\<rparr>))"
| "cloud_api (PutBucketVersioning b) w = (Inr [], w)"
| "cloud_api (PutBucketEncryption b) w = (Inr [], w)"
| "cloud_api (PutBucketTagging b) w = (Inr [], w)"
| "cloud_api (CreateRepository n) w =
     (case map_of (repositories w) n of
        Some uri \<Rightarrow> (Inl (ClientError ''RepositoryAlreadyExistsException'' ''repository exists''), w)
      | None \<Rightarrow>
          (Inr (AWS_ACCOUNT @ ''.dkr.ecr.'' @ AWS_REGION @ ''.amazonaws.com/'' @ n),
           w\<lparr>repositories :=
               (n, AWS_ACCOUNT @ ''.dkr.ecr.'' @ AWS_REGION @ ''.amazonaws.com/'' @ n)
               # repositories w\<rparr>))"
| "cloud_api (DescribeRepositories n) w =
     lookup (repositories w) n ''RepositoryNotFoundException'' w"
| "cloud_api (CreateRole n) w =
     (case map_of (roles w) n of
        Some arn \<Rightarrow> (Inl (ClientError ''EntityAlreadyExists'' ''role exists''), w)
      | None \<Rightarrow>
          (Inr (''arn:aws:iam::'' @ AWS_ACCOUNT @ '':role/'' @ n),
           w\<lparr>roles := (n, ''arn:aws:iam::'' @ AWS_ACCOUNT @ '':role/'' @ n) # roles w\<rparr>))"
| "cloud_api (AttachRolePolicy n p) w = (Inr [], w)"
| "cloud_api (PutRolePolicy n p) w = (Inr [], w)"
| "cloud_api (GetRole n) w = lookup (roles w) n ''NoSuchEntity'' w"
| "cloud_api (CreateFunction n role img) w =
     (case map_of (lambda_functions w) n of
        Some arn \<Rightarrow> (Inl (ClientError ''ResourceConflictException'' ''function exists''), w)
      | None \<Rightarrow>
          (Inr (''arn:aws:lambda:'' @ AWS_REGION @ '':'' @ AWS_ACCOUNT @ '':function:'' @ n),
           w\<lparr>lambda_functions :=
               (n, ''arn:aws:lambda:'' @ AWS_REGION @ '':'' @ AWS_ACCOUNT @ '':function:'' @ n)
               # lambda_functions w\<rparr>))"
| "cloud_api (UpdateFunctionCode n img) w =
     lookup (lambda_functions w) n ''ResourceNotFoundException'' w"
| "cloud_api (WaitFunctionUpdated n) w = (Inr [], w)"
| "cloud_api (UpdateFunctionConfiguration n role) w =
     lookup (lambda_functions w) n ''ResourceNotFoundException'' w"
| "cloud_api (GetFunction n) w = lookup (lambda_functions w) n ''ResourceNotFoundException'' w"
| "cloud_api (CreateFunctionUrlConfig n) w =
     (case map_of (function_urls w) n of
        Some url \<Rightarrow> (Inl (ClientError ''ResourceConflictException'' ''url exists''), w)
      | None \<Rightarrow>
          (Inr (''https://'' @ n @ ''.lambda-url.'' @ AWS_REGION @ ''.on.aws/''),
           w\<lparr>function_urls :=
               (n, ''https://'' @ n @ ''.lambda-url.'' @ AWS_REGION @ ''.on.aws/'')
               # function_urls w\<rparr>))"
| "cloud_api (AddPermission n sid) w =
     (if (n, sid) \<in> set (permissions w)
      then (Inl (ClientError ''ResourceConflictException'' ''statement exists''), w)
      else (Inr [], w\<lparr>permissions := (n, sid) # permissions w\<rparr>))"
| "cloud_api (GetFunctionUrlConfig n) w =
     lookup (function_urls w) n ''ResourceNotFoundException'' w"


definition empty_cloud :: cloud where
  "empty_cloud =
     \<lparr>buckets = [], repositories = [], roles = [], lambda_functions = [],
      function_urls = [], permissions = []\<rparr>"

definition new_deployer :: "'w \<Rightarrow> 'w deployer" where
  "new_deployer w = \<lparr>world = w, ecr_uri = None, image_uri = None\<rparr>"

definition new_lambda_deployer :: "'w \<Rightarrow> 'w lambda_deployer" where
  "new_lambda_deployer w =
     \<lparr>world = w, ecr_uri = None, image_uri = None, s3_bucket_created = False\<rparr>"

text \<open>
  Two further behaviours of the API, each with nothing to remember: one where the
  bucket appears between \<open>head_bucket\<close> and \<open>create_bucket\<close>, and one that refuses
  every request.
\<close>

fun racing_api :: "unit client" where
  "racing_api (HeadBucket b) w = (Inl (ClientError ''404'' ''Not Found''), w)"
| "racing_api (CreateBucket b location) w =
     (Inl (ClientError ''BucketAlreadyOwnedByYou'' ''bucket exists''), w)"
| "racing_api req w = (Inr [], w)"


text \<open>A cloud where every resource of the scripts exists already.\<close>

definition provisioned_cloud :: cloud where
  "provisioned_cloud =
     \<lparr>buckets = [S3_BUCKET_NAME],
      repositories = [(ECR_REPO_NAME, ''registry.example/python-repl-container-lambda'')],
      roles = [(role_name, ''arn:aws:iam::1:role/existing'')],
      lambda_functions =
        [(LAMBDA_FUNCTION_NAME, ''arn:aws:lambda:1:function:existing''),
         (AWSDeployer_LAMBDA_FUNCTION_NAME, ''arn:aws:lambda:1:function:repl'')],
      function_urls = [(LAMBDA_FUNCTION_NAME, ''https://existing.on.aws/'')],
      permissions = [(LAMBDA_FUNCTION_NAME, ''FunctionURLAllowPublicAccess'')]\<rparr>"

definition existing_deployer :: "cloud lambda_deployer" where
  "existing_deployer =
     \<lparr>world = provisioned_cloud, ecr_uri = None, image_uri = None,
      s3_bucket_created = False\<rparr>"

text \<open>
  The deployers of a second run: the repository URI and the image URI are set, as
  \<open>create_ecr_repository\<close> leaves them.
\<close>

definition rerun_deployer :: "cloud lambda_deployer" where
  "rerun_deployer =
     \<lparr>world = provisioned_cloud,
      ecr_uri = Some ''registry.example/python-repl-container-lambda'',
      image_uri = Some (''registry.example/python-repl-container-lambda'' @ '':'' @ IMAGE_TAG),
      s3_bucket_created = True\<rparr>"

definition rerun_aws_deployer :: "cloud deployer" where
  "rerun_aws_deployer =
     \<lparr>world = provisioned_cloud,
      ecr_uri = Some ''registry.example/lambda-python-repl'',
      image_uri = Some ''registry.example/lambda-python-repl:latest''\<rparr>"


definition cloud_without_url :: cloud where
  "cloud_without_url = provisioned_cloud\<lparr>function_urls := []\<rparr>"

definition cloud_with_new_url :: cloud where
  "cloud_with_new_url =
     provisioned_cloud\<lparr>function_urls :=
       [(LAMBDA_FUNCTION_NAME,
         ''https://'' @ LAMBDA_FUNCTION_NAME @ ''.lambda-url.'' @ AWS_REGION @ ''.on.aws/'')]\<rparr>"

section \<open>\<open>update_aws_deployment.py\<close>: helper and stages\<close>

text \<open>
  \<open>str.strip()\<close> removes leading and trailing whitespace. A character of the model
  is a code point below 256; of these Python counts as whitespace 9 to 13, 28 to 32,
  133 (next line) and 160 (no-break space).
\<close>

definition isspace :: "char \<Rightarrow> bool" where
  "isspace c \<longleftrightarrow>
     (of_char c :: nat) \<in> {9, 10, 11, 12, 13, 28, 29, 30, 31, 32, 133, 160}"

definition strip :: "string \<Rightarrow> string" where
  "strip s = rev (dropWhile isspace (rev (dropWhile isspace s)))"

text \<open>
  The module-level helper \<open>run\<close> (lines 176-203), here \<open>run_cmd\<close> since the method
  \<open>UpdateDeployer.run\<close> has the name already. Only \<open>CalledProcessError\<close> is caught.
\<close>

definition run_cmd ::
  "'w subprocess \<Rightarrow> string list \<Rightarrow>
     (('w, 'z) python_object_scheme, bool \<times> string \<times> string) io" where
  "run_cmd sh cmd =
     try_except
       (andthen (subprocess_run sh cmd) (\<lambda>result.
        ret (True, strip (fst result), strip (snd result))))
       (\<lambda>exc. case exc of
          CalledProcessError out err msg \<Rightarrow>
            ret (False,
                 (if truthy out then strip (fmt out) else []),
                 (if truthy err then strip (fmt err) else msg))
        | _ \<Rightarrow> raise exc)"

definition PROJECT_ROOT :: string where
  \<comment> \<open>stands for the directory that holds the script\<close>
  "PROJECT_ROOT = ''/project''"

definition DOCKERHUB_USERNAME :: string where
  "DOCKERHUB_USERNAME = ''faddah''"

definition DOCKER_APP_IMAGE :: string where
  "DOCKER_APP_IMAGE = ''code-canvas-astro-app''"

definition DOCKER_DB_INIT_IMAGE :: string where
  "DOCKER_DB_INIT_IMAGE = ''code-canvas-astro-db-init''"

definition ECR_REPO_URI :: string where
  "ECR_REPO_URI = AWS_ACCOUNT @ ''.dkr.ecr.'' @ AWS_REGION @ ''.amazonaws.com''"

definition ECR_FULL_URI :: string where
  "ECR_FULL_URI = ECR_REPO_URI @ ''/'' @ ECR_REPO_NAME"

definition LAMBDA_FUNCTION_URL :: string where
  "LAMBDA_FUNCTION_URL =
     ''https://jb6uzlmmok5wxyr2nzdci3wdfi0rcush.lambda-url.us-west-2.on.aws/''"

definition ROUTE53_DOMAIN :: string where
  "ROUTE53_DOMAIN = ''pyrepl.dev''"

record 'w update_deployer = "'w python_object" +
  version :: string
  image_tag :: string
  ecr_image_uri :: string

type_synonym 'w update_stage = "('w update_deployer, bool) io"

text \<open>
  The parsed content of \<open>package.json\<close>. An object is the dictionary that
  \<open>json.load\<close> builds: a list of pairs with distinct keys.
\<close>

datatype json =
    JNull
  | JBool bool
  | JNumber int
  | JString string
  | JArray "json list"
  | JObject "(string \<times> json) list"

text \<open>
  \<open>open(PACKAGE_JSON_PATH)\<close> followed by \<open>json.load\<close>: the parsed value, or
  \<open>OSError\<close> (the file cannot be read), \<open>JSONDecodeError\<close> (it is not valid JSON) or
  another exception (such as a decoding error of the text).
\<close>

type_synonym 'w manifest = "'w \<Rightarrow> (exn + json) \<times> 'w"

definition load_package_json :: "'w manifest \<Rightarrow> ('w update_deployer, json) io" where
  "load_package_json manifest self =
     (case manifest (world self) of (r, w') \<Rightarrow> (r, self\<lparr>world := w'\<rparr>))"

text \<open>\<open>data.get("version", "")\<close>: only a dictionary has the method \<open>get\<close>.\<close>

fun get_version :: "json \<Rightarrow> ('s, json) io" where
  "get_version (JObject items) =
     (case map_of items ''version'' of Some v \<Rightarrow> ret v | None \<Rightarrow> ret (JString []))"
| "get_version data = raise (AttributeError ''object has no attribute get'')"

text \<open>\<open>.strip()\<close> on the value: only a string has the method \<open>strip\<close>.\<close>

fun strip_value :: "json \<Rightarrow> ('s, string) io" where
  "strip_value (JString s) = ret (strip s)"
| "strip_value v = raise (AttributeError ''object has no attribute strip'')"

text \<open>
  \<open>stage_01_read_version\<close> (lines 290-320). The two handlers catch
  \<open>JSONDecodeError\<close> and \<open>OSError\<close>; any other exception leaves the stage.
\<close>

definition stage_01_read_version :: "'w manifest \<Rightarrow> 'w update_stage" where
  "stage_01_read_version manifest =
     try_except
       (andthen (load_package_json manifest) (\<lambda>data.
        andthen (get_version data) (\<lambda>v.
        andthen (strip_value v) (\<lambda>version'.
        if version' = [] then ret False
        else
        andthen (modify (\<lambda>self. self\<lparr>version := version', image_tag := ''v'' @ version'\<rparr>)) (\<lambda>_.
        ret True)))))
       (\<lambda>exc. case exc of
          JSONDecodeError msg \<Rightarrow> ret False
        | OSError msg \<Rightarrow> ret False
        | _ \<Rightarrow> raise exc)"

text \<open>The \<open>docker buildx build\<close> command that stages 2, 3 and 6 spell out.\<close>

definition buildx_build :: "string \<Rightarrow> string \<Rightarrow> string list" where
  "buildx_build local_tag dockerfile =
     [''docker'', ''buildx'', ''build'', ''--platform'', ''linux/amd64'',
      ''--provenance=false'', ''--sbom=false'', ''--load'', ''-t'', local_tag, ''-f'',
      PROJECT_ROOT @ ''/'' @ dockerfile, PROJECT_ROOT]"

text \<open>
  \<open>stage_02_build_app_container\<close> (lines 326-357), with its local variable
  \<open>local_tag\<close>.
\<close>

definition stage_02_local_tag :: "'w update_deployer \<Rightarrow> string" where
  "stage_02_local_tag self = DOCKER_APP_IMAGE @ '':'' @ image_tag self"

definition stage_02_build_app_container :: "'w subprocess \<Rightarrow> 'w update_stage" where
  "stage_02_build_app_container sh =
     andthen (\<lambda>self. run_cmd sh (buildx_build (stage_02_local_tag self) ''Dockerfile'') self)
       (\<lambda>(ok, stdout, stderr). if \<not> ok then ret False else ret True)"

text \<open>\<open>stage_03_build_db_init_container\<close> (lines 363-391).\<close>

definition stage_03_local_tag :: "'w update_deployer \<Rightarrow> string" where
  "stage_03_local_tag self = DOCKER_DB_INIT_IMAGE @ '':'' @ image_tag self"

definition stage_03_build_db_init_container :: "'w subprocess \<Rightarrow> 'w update_stage" where
  "stage_03_build_db_init_container sh =
     andthen (\<lambda>self. run_cmd sh (buildx_build (stage_03_local_tag self) ''Dockerfile.db'') self)
       (\<lambda>(ok, stdout, stderr). if \<not> ok then ret False else ret True)"

text \<open>
  \<open>stage_04_push_to_dockerhub\<close> (lines 397-483). The result of the login is bound
  and not used. The loop over \<open>images_to_push\<close> returns \<open>False\<close> at the first command
  that fails.
\<close>

definition images_to_push :: "'w update_deployer \<Rightarrow> (string \<times> string \<times> string) list" where
  "images_to_push self =
     [(DOCKER_APP_IMAGE @ '':'' @ image_tag self,
       DOCKERHUB_USERNAME @ ''/'' @ DOCKER_APP_IMAGE @ '':'' @ image_tag self,
       DOCKERHUB_USERNAME @ ''/'' @ DOCKER_APP_IMAGE @ '':latest''),
      (DOCKER_DB_INIT_IMAGE @ '':'' @ image_tag self,
       DOCKERHUB_USERNAME @ ''/'' @ DOCKER_DB_INIT_IMAGE @ '':'' @ image_tag self,
       DOCKERHUB_USERNAME @ ''/'' @ DOCKER_DB_INIT_IMAGE @ '':latest'')]"

fun push_images :: "'w subprocess \<Rightarrow> (string \<times> string \<times> string) list \<Rightarrow> 'w update_stage" where
  "push_images sh [] = ret True"
| "push_images sh ((local_tag, hub_tag, hub_latest_tag) # rest) =
     andthen (run_cmd sh [''docker'', ''tag'', local_tag, hub_tag]) (\<lambda>(ok, out, err).
     if \<not> ok then ret False
     else
     andthen (run_cmd sh [''docker'', ''tag'', local_tag, hub_latest_tag]) (\<lambda>(ok, out, err).
     if \<not> ok then ret False
     else
     andthen (run_cmd sh [''docker'', ''push'', hub_tag]) (\<lambda>(ok, out, err).
     if \<not> ok then ret False
     else
     andthen (run_cmd sh [''docker'', ''push'', hub_latest_tag]) (\<lambda>(ok, out, err).
     if \<not> ok then ret False
     else push_images sh rest))))"

definition docker_login :: "string list" where
  "docker_login = [''docker'', ''login'', ''--username'', DOCKERHUB_USERNAME]"

definition stage_04_push_to_dockerhub :: "'w subprocess \<Rightarrow> 'w update_stage" where
  "stage_04_push_to_dockerhub sh =
     andthen (run_cmd sh docker_login) (\<lambda>(login_ok, out, login_err).
     (\<lambda>self. push_images sh (images_to_push self) self))"

text \<open>
  The commands that the loop of stage 4 issues for one image and for all of them, in
  the order of the source; \<open>run_commands\<close> issues a list of commands through \<open>run\<close> and
  returns \<open>False\<close> at the first that is not ok, as each \<open>if not ok\<close> of the loop does;
  \<open>commands_ok\<close> is the world after a list of commands that all exit with status 0.
\<close>

fun image_commands :: "string \<times> string \<times> string \<Rightarrow> string list list" where
  "image_commands (local_tag, hub_tag, hub_latest_tag) =
     [[''docker'', ''tag'', local_tag, hub_tag],
      [''docker'', ''tag'', local_tag, hub_latest_tag],
      [''docker'', ''push'', hub_tag],
      [''docker'', ''push'', hub_latest_tag]]"

definition stage_04_commands :: "'w update_deployer \<Rightarrow> string list list" where
  "stage_04_commands self = concat (map image_commands (images_to_push self))"

fun run_commands :: "'w subprocess \<Rightarrow> string list list \<Rightarrow> 'w update_stage" where
  "run_commands sh [] = ret True"
| "run_commands sh (cmd # rest) =
     andthen (run_cmd sh cmd) (\<lambda>(ok, out, err).
     if \<not> ok then ret False else run_commands sh rest)"

fun commands_ok :: "'w subprocess \<Rightarrow> string list list \<Rightarrow> 'w \<Rightarrow> 'w option" where
  "commands_ok sh [] w = Some w"
| "commands_ok sh (cmd # rest) w =
     (case sh cmd w of
        (Inr output, w') \<Rightarrow> commands_ok sh rest w'
      | (Inl e, w') \<Rightarrow> None)"

text \<open>
  \<open>stage_06_build_and_push_ecr\<close> (lines 539-628), with its local variables
  \<open>local_tag\<close>, \<open>ecr_tag\<close> and \<open>ecr_latest\<close>.
\<close>

definition stage_06_local_tag :: "'w update_deployer \<Rightarrow> string" where
  "stage_06_local_tag self = ECR_REPO_NAME @ '':'' @ image_tag self"

definition stage_06_ecr_tag :: "'w update_deployer \<Rightarrow> string" where
  "stage_06_ecr_tag self = ECR_FULL_URI @ '':'' @ image_tag self"

definition stage_06_ecr_latest :: string where
  "stage_06_ecr_latest = ECR_FULL_URI @ '':latest''"

definition stage_06_build_and_push_ecr :: "'w subprocess \<Rightarrow> 'w update_stage" where
  "stage_06_build_and_push_ecr sh =
     andthen (modify (\<lambda>self. self\<lparr>ecr_image_uri := stage_06_ecr_tag self\<rparr>)) (\<lambda>_.
     andthen (\<lambda>self. run_cmd sh
                (buildx_build (stage_06_local_tag self) ''Dockerfile.lambda'') self)
       (\<lambda>(ok, out, err).
     if \<not> ok then ret False
     else
     andthen (\<lambda>self. run_cmd sh
                [''docker'', ''tag'', stage_06_local_tag self, stage_06_ecr_tag self] self)
       (\<lambda>(ok, out, err).
     if \<not> ok then ret False
     else
     andthen (\<lambda>self. run_cmd sh
                [''docker'', ''tag'', stage_06_local_tag self, stage_06_ecr_latest] self)
       (\<lambda>(ok, out, err).
     if \<not> ok then ret False
     else
     andthen (\<lambda>self. run_cmd sh [''docker'', ''push'', stage_06_ecr_tag self] self)
       (\<lambda>(ok, out, err).
     if \<not> ok then ret False
     else
     andthen (run_cmd sh [''docker'', ''push'', stage_06_ecr_latest])
       (\<lambda>(ok, out, err).
     if \<not> ok then ret False else ret True))))))"

text \<open>
  A launcher that finds no program, one whose command prints bytes that are no text,
  one that logs each command and on which only the Docker Hub login fails, and one that
  logs each command and on which the login fails and every push raises a given exception.
\<close>

definition missing_tool :: "unit subprocess" where
  "missing_tool cmd w = (Inl (OSError ''[Errno 2] No such file or directory''), w)"

definition login_fails :: "string list list subprocess" where
  "login_fails cmd w =
     (if cmd = docker_login
      then (Inl (CalledProcessError (Some []) (Some ''Error: Cannot perform an interactive login'')
                   ''Command returned non-zero exit status 1.''), w @ [cmd])
      else (Inr ([], []), w @ [cmd]))"

definition garbled_tool :: "unit subprocess" where
  "garbled_tool cmd w =
     (Inl (UnicodeDecodeError ''utf-8 codec cannot decode byte 0xff in position 0''), w)"

definition push_raises :: "exn \<Rightarrow> string list list subprocess" where
  "push_raises e cmd w =
     (if cmd = docker_login
      then (Inl (CalledProcessError (Some []) (Some ''Error: Cannot perform an interactive login'')
                   ''Command returned non-zero exit status 1.''), w @ [cmd])
      else if take 2 cmd = [''docker'', ''push''] then (Inl e, w @ [cmd])
      else (Inr ([], []), w @ [cmd]))"

definition updater :: "'w \<Rightarrow> string \<Rightarrow> 'w update_deployer" where
  "updater w v = \<lparr>world = w, version = v, image_tag = ''v'' @ v, ecr_image_uri = []\<rparr>"

section \<open>Health checks\<close>

text \<open>
  An HTTP request returns the status code of the response or raises. With
  \<open>urllib.request.urlopen\<close> an error status arrives as \<open>HTTPError\<close> and a failed
  connection as \<open>URLError\<close>; with \<open>requests.get\<close> every status is returned and a
  failed connection is a \<open>RequestException\<close>. \<open>time.sleep\<close> changes the world only.
\<close>

type_synonym 'w http = "string \<Rightarrow> 'w \<Rightarrow> (exn + nat) \<times> 'w"

definition http_get :: "'w http \<Rightarrow> string \<Rightarrow> (('w, 'z) python_object_scheme, nat) io" where
  "http_get http url self =
     (case http url (world self) of (r, w') \<Rightarrow> (r, self\<lparr>world := w'\<rparr>))"

definition time_sleep ::
  "(nat \<Rightarrow> 'w \<Rightarrow> 'w) \<Rightarrow> nat \<Rightarrow> (('w, 'z) python_object_scheme, unit) io" where
  "time_sleep sleep secs = modify (\<lambda>self. self\<lparr>world := sleep secs (world self)\<rparr>)"

text \<open>
  The three verifiers share one loop:
  \<^verbatim>\<open>
  for attempt in range(1, max_retries + 1):
      <the attempt: may return True>
      if attempt < max_retries:
          time.sleep(delay)
  return False
  \<close>
  The attempt yields \<open>True\<close> when it executed \<open>return True\<close> and \<open>False\<close> when control
  reached the code after it.
\<close>

fun retry_loop ::
  "(('w, 'z) python_object_scheme, bool) io \<Rightarrow> (nat \<Rightarrow> 'w \<Rightarrow> 'w) \<Rightarrow> nat \<Rightarrow> nat \<Rightarrow> nat list \<Rightarrow>
     (('w, 'z) python_object_scheme, bool) io" where
  "retry_loop attempt_body sleep max_retries delay [] = ret False"
| "retry_loop attempt_body sleep max_retries delay (attempt # rest) =
     andthen attempt_body (\<lambda>returned.
     if returned then ret True
     else
     andthen (if attempt < max_retries then time_sleep sleep delay else ret ()) (\<lambda>_.
     retry_loop attempt_body sleep max_retries delay rest))"

text \<open>
  The attempt of stages 11 and 12 (lines 945-978 and 1014-1047): the status codes
  200, 301 and 302 of a response and 400, 403, 404 and 405 of an \<open>HTTPError\<close> return
  \<open>True\<close>; everything else, any exception included, is retried.
\<close>

definition health_attempt :: "'w http \<Rightarrow> string \<Rightarrow> 'w update_stage" where
  "health_attempt urlopen url =
     try_except
       (andthen (http_get urlopen url) (\<lambda>status.
        if status \<in> {200, 301, 302} then ret True else ret False))
       (\<lambda>exc. case exc of
          HTTPError code reason \<Rightarrow>
            if code \<in> {400, 403, 404, 405} then ret True else ret False
        | URLError reason \<Rightarrow> ret False
        | _ \<Rightarrow> ret False)"

definition stage_11_health_check_lambda_url ::
  "'w http \<Rightarrow> (nat \<Rightarrow> 'w \<Rightarrow> 'w) \<Rightarrow> 'w update_stage" where
  "stage_11_health_check_lambda_url urlopen sleep =
     retry_loop (health_attempt urlopen LAMBDA_FUNCTION_URL) sleep 5 15 [1..<5 + 1]"

definition stage_12_health_check_public_domain ::
  "'w http \<Rightarrow> (nat \<Rightarrow> 'w \<Rightarrow> 'w) \<Rightarrow> 'w update_stage" where
  "stage_12_health_check_public_domain urlopen sleep =
     retry_loop (health_attempt urlopen (''https://'' @ ROUTE53_DOMAIN @ ''/'')) sleep 5 20
       [1..<5 + 1]"

text \<open>
  \<open>verify_deployment\<close> of \<open>aws_route53_cloudfront_deploy.py\<close> (lines 111-134), a
  function of the module: only the status 200 returns \<open>True\<close>, only
  \<open>RequestException\<close> is caught. The number of retries is a natural number here; a
  negative argument gives the empty range as 0 does.
\<close>

definition verify_attempt :: "'w http \<Rightarrow> string \<Rightarrow> ('w python_object, bool) io" where
  "verify_attempt requests_get domain =
     try_except
       (andthen (http_get requests_get (''https://'' @ domain)) (\<lambda>status_code.
        if status_code = 200 then ret True else ret False))
       (\<lambda>e. case e of RequestException msg \<Rightarrow> ret False | _ \<Rightarrow> raise e)"

definition verify_deployment ::
  "'w http \<Rightarrow> (nat \<Rightarrow> 'w \<Rightarrow> 'w) \<Rightarrow> string \<Rightarrow> nat \<Rightarrow> nat \<Rightarrow> ('w python_object, bool) io" where
  "verify_deployment requests_get sleep domain max_retries delay =
     retry_loop (verify_attempt requests_get domain) sleep max_retries delay
       [1..<max_retries + 1]"

text \<open>
  What one attempt makes of the outcome of the request: \<open>Some True\<close> is "return
  \<open>True\<close> now", \<open>Some False\<close> is "transient, go on to the next attempt", \<open>None\<close> is "the
  exception leaves the verifier".
\<close>

fun health_verdict :: "exn + nat \<Rightarrow> bool option" where
  "health_verdict (Inr status) = Some (status \<in> {200, 301, 302})"
| "health_verdict (Inl (HTTPError code reason)) = Some (code \<in> {400, 403, 404, 405})"
| "health_verdict (Inl exc) = Some False"

fun verify_verdict :: "exn + nat \<Rightarrow> bool option" where
  "verify_verdict (Inr status_code) = Some (status_code = 200)"
| "verify_verdict (Inl (RequestException msg)) = Some False"
| "verify_verdict (Inl exc) = None"

text \<open>The world as a log of requests and sleeps, and a server with one fixed answer.\<close>

datatype event = Get string | Sleep nat

definition log_sleep :: "nat \<Rightarrow> event list \<Rightarrow> event list" where
  "log_sleep secs w = w @ [Sleep secs]"

definition answering :: "exn + nat \<Rightarrow> event list http" where
  "answering r url w = (r, w @ [Get url])"

text \<open>
  The world after exactly \<open>n\<close> requests to \<open>url\<close>, for \<open>n \<ge> 1\<close>, with a sleep of
  \<open>delay\<close> seconds between one request and the next.
\<close>

definition after_requests ::
  "'w http \<Rightarrow> (nat \<Rightarrow> 'w \<Rightarrow> 'w) \<Rightarrow> string \<Rightarrow> nat \<Rightarrow> nat \<Rightarrow> 'w \<Rightarrow> 'w" where
  "after_requests http sleep url delay n w =
     snd (http url (((\<lambda>w. sleep delay (snd (http url w))) ^^ (n - 1)) w))"

definition log_updater :: "event list update_deployer" where
  "log_updater = updater [] ''1.2.0''"

definition log_object :: "event list python_object" where
  "log_object = \<lparr>world = []\<rparr>"

text \<open>
  The world before attempt \<open>j + 1\<close>: after \<open>j\<close> requests to \<open>url\<close>, each followed by a
  sleep of \<open>delay\<close> seconds.
\<close>

definition after_retries ::
  "'w http \<Rightarrow> (nat \<Rightarrow> 'w \<Rightarrow> 'w) \<Rightarrow> string \<Rightarrow> nat \<Rightarrow> nat \<Rightarrow> 'w \<Rightarrow> 'w" where
  "after_retries http sleep url delay j w = ((\<lambda>w. sleep delay (snd (http url w))) ^^ j) w"

text \<open>A server that gives one answer to the first \<open>n\<close> requests and another afterwards.\<close>

definition recovering :: "nat \<Rightarrow> exn + nat \<Rightarrow> exn + nat \<Rightarrow> event list http" where
  "recovering n early late url w =
     (if length (filter (\<lambda>e. e = Get url) w) < n then early else late, w @ [Get url])"

section \<open>\<open>deploy_to_apprunner.py\<close>: the wait for the service\<close>

text \<open>
  The App Runner client answers with a description of the service, of which the
  script reads \<open>ServiceArn\<close>, \<open>ServiceId\<close> and \<open>Status\<close>. The requests carry the
  arguments that vary: the ARN or the name of the service, the image and the two roles.
\<close>

datatype service = Service (ServiceArn: string) (ServiceId: string) (Status: string)












section \<open>Properties of the stage runner\<close>

lemma stage_loop_append_ok:
  "stages_ok pre s = Some s1 \<Longrightarrow>
   stage_loop (pre @ rest) s =
     (case stage_loop rest s1 of
        (r, called, s2) \<Rightarrow> (r, map (\<lambda>st. (fst st, True)) pre @ called, s2))"
proof (induction pre arbitrary: s)
  case Nil
  then show ?case by simp
next
  case (Cons st pre)
  obtain label fn where st: "st = (label, fn)" by (cases st)
  from Cons.prems st obtain s' where fn: "fn s = (Inr True, s')" and ok: "stages_ok pre s' = Some s1"
    by (auto split: prod.splits sum.splits bool.splits)
  from Cons.IH [OF ok] fn st show ?case
    by (simp split: prod.splits)
qed

lemma stage_loop_stops:
  assumes "stages_ok pre s = Some s1"
    and "fn s1 = (Inr False, s2)"
  shows "stage_loop (pre @ (label, fn) # post) s =
           (Inr (False, Some label),
            map (\<lambda>st. (fst st, True)) pre @ [(label, False)], s2)"
  using stage_loop_append_ok [OF assms(1), of "(label, fn) # post"] assms(2)
  by simp

text \<open>
  Claim C1. When stage \<open>i\<close> is the first whose action returns a failing result (the
  pre-flight check passed and the stages before \<open>i\<close>, called in order, all returned
  \<open>True\<close>), the runner has called the stages up to \<open>i\<close> once each and in order, calls
  none after it (the final state is the one stage \<open>i\<close> left, whatever the later stages
  are), and its report has \<open>all_passed = False\<close> and \<open>failed_at\<close> the label of stage
  \<open>i\<close>. For the stages A (success), B (failure), C (success) the report shows A
  succeeded, B failed, and C was never called.
\<close>

theorem run_first_failure:
  assumes "preflight s0 = (Inr True, s)"
    and "stages_ok pre s = Some s1"
    and "fn s1 = (Inr False, s2)"
  shows "run preflight (pre @ (label, fn) # post) s0 =
           (Inr \<lparr>all_passed = False, failed_at = Some label,
                 stage_results = map (\<lambda>st. (fst st, True)) pre @ [(label, False)]\<rparr>, s2)"
proof -
  have "stage_loop (pre @ (label, fn) # post) s =
          (Inr (False, Some label),
           map (\<lambda>st. (fst st, True)) pre @ [(label, False)], s2)"
    using assms(2) assms(3) by (rule stage_loop_stops [where fn = fn and ?s1.0 = s1])
  with assms(1) show ?thesis by (simp add: run_def)
qed

theorem run_first_failure_witness:
  "preflight_pass ([] :: string list) = (Inr True, []) \<and>
   stages_ok [(''A'', stage_A)] [] = Some [''A''] \<and>
   stage_B [''A''] = (Inr False, [''A'', ''B'']) \<and>
   run preflight_pass abc_stages [] =
     (Inr \<lparr>all_passed = False, failed_at = Some ''B'',
           stage_results = [(''A'', True), (''B'', False)]\<rparr>, [''A'', ''B''])"
proof -
  have p: "preflight_pass ([] :: string list) = (Inr True, [])"
    by (simp add: preflight_pass_def)
  have a: "stages_ok [(''A'', stage_A)] [] = Some [''A'']"
    by (simp add: stage_A_def)
  have b: "stage_B [''A''] = (Inr False, [''A'', ''B''])"
    by (simp add: stage_B_def)
  have "run preflight_pass ([(''A'', stage_A)] @ (''B'', stage_B) # [(''C'', stage_C)]) [] =
          (Inr \<lparr>all_passed = False, failed_at = Some ''B'',
                stage_results = map (\<lambda>st. (fst st, True)) [(''A'', stage_A)] @ [(''B'', False)]\<rparr>,
           [''A'', ''B''])"
    using p a b
    by (rule run_first_failure [where preflight = preflight_pass and fn = stage_B
          and ?s1.0 = "[''A'']" and s = "[]"])
  with p a b show ?thesis by (simp add: abc_stages_def)
qed

section \<open>Properties of \<open>LambdaDeployer\<close>\<close>

lemmas io_defs =
  andthen_def try_except_def ret_def raise_def modify_def call_def subprocess_run_def








lemma print_fail_quiet: "\<not> response_is_no_dict e \<Longrightarrow> print_fail (Some e) s = (Inr (), s)"
  by (simp add: ret_def)







section \<open>Provisioning: conflicts and repeated calls\<close>

lemma ecr_conflict:
  "api (CreateRepository ECR_REPO_NAME) (world self) =
      (Inl (ClientError ''RepositoryAlreadyExistsException'' msg), w1) \<Longrightarrow>
   api (DescribeRepositories ECR_REPO_NAME) w1 = (Inr uri, w2) \<Longrightarrow>
   create_ecr_repository api self =
      (Inr True, self\<lparr>ecr_uri := Some uri, image_uri := Some (uri @ '':'' @ IMAGE_TAG),
                     world := w2\<rparr>)"
  by (simp add: create_ecr_repository_def io_defs)

lemma role_conflict:
  "api (CreateRole role_name) (world self) =
      (Inl (ClientError ''EntityAlreadyExists'' msg), w1) \<Longrightarrow>
   api (GetRole role_name) w1 = (Inr arn, w2) \<Longrightarrow>
   api (PutRolePolicy role_name ''S3DatabaseAccessPolicy'') w2 = (Inr x, w3) \<Longrightarrow>
   create_lambda_execution_role api self = (Inr (Some arn), self\<lparr>world := w3\<rparr>)"
  by (simp add: create_lambda_execution_role_def io_defs)

lemma function_conflict:
  "image_uri self = Some img \<Longrightarrow>
   api (CreateFunction LAMBDA_FUNCTION_NAME role_arn img) (world self) =
      (Inl (ClientError ''ResourceConflictException'' msg), w1) \<Longrightarrow>
   api (UpdateFunctionCode LAMBDA_FUNCTION_NAME img) w1 = (Inr x1, w2) \<Longrightarrow>
   api (WaitFunctionUpdated LAMBDA_FUNCTION_NAME) w2 = (Inr x2, w3) \<Longrightarrow>
   api (UpdateFunctionConfiguration LAMBDA_FUNCTION_NAME (Some role_arn)) w3 = (Inr x3, w4) \<Longrightarrow>
   api (WaitFunctionUpdated LAMBDA_FUNCTION_NAME) w4 = (Inr x4, w5) \<Longrightarrow>
   api (GetFunction LAMBDA_FUNCTION_NAME) w5 = (Inr arn, w6) \<Longrightarrow>
   create_or_update_lambda_function api role_arn self =
      (Inr (Some arn), self\<lparr>world := w6\<rparr>)"
  by (simp add: create_or_update_lambda_function_def io_defs)

lemma url_conflict:
  "api (CreateFunctionUrlConfig LAMBDA_FUNCTION_NAME) (world self) =
      (Inl (ClientError ''ResourceConflictException'' msg), w1) \<Longrightarrow>
   api (GetFunctionUrlConfig LAMBDA_FUNCTION_NAME) w1 = (Inr url, w2) \<Longrightarrow>
   create_function_url api self = (Inr (Some url), self\<lparr>world := w2\<rparr>)"
  by (simp add: create_function_url_def io_defs)

lemma permission_conflict:
  "api (CreateFunctionUrlConfig LAMBDA_FUNCTION_NAME) (world self) = (Inr url, w1) \<Longrightarrow>
   api (AddPermission LAMBDA_FUNCTION_NAME ''FunctionURLAllowPublicAccess'') w1 =
      (Inl (ClientError ''ResourceConflictException'' msg), w2) \<Longrightarrow>
   create_function_url api self = (Inr (Some url), self\<lparr>world := w2\<rparr>)"
  by (simp add: create_function_url_def io_defs)

lemma bucket_exists:
  "api (HeadBucket S3_BUCKET_NAME) (world self) = (Inr x, w1) \<Longrightarrow>
   create_s3_bucket api self =
      (Inr True, self\<lparr>world := w1, s3_bucket_created := True\<rparr>)"
  by (simp add: create_s3_bucket_def io_defs)

lemma bucket_conflict:
  "api (HeadBucket S3_BUCKET_NAME) (world self) = (Inl (ClientError ''404'' m), w1) \<Longrightarrow>
   api (CreateBucket S3_BUCKET_NAME (Some AWS_REGION)) w1 = (Inl (ClientError code msg), w2) \<Longrightarrow>
   create_s3_bucket api self = (Inr False, self\<lparr>world := w2\<rparr>)"
  by (simp add: create_s3_bucket_def io_defs AWS_REGION_def)

lemma aws_function_conflict:
  "image_uri d = Some img \<Longrightarrow>
   api (CreateFunction AWSDeployer_LAMBDA_FUNCTION_NAME role_arn img) (world d) =
      (Inl (ClientError ''ResourceConflictException'' msg), w1) \<Longrightarrow>
   api (UpdateFunctionCode AWSDeployer_LAMBDA_FUNCTION_NAME img) w1 = (Inr x1, w2) \<Longrightarrow>
   api (GetFunction AWSDeployer_LAMBDA_FUNCTION_NAME) w2 = (Inr arn, w3) \<Longrightarrow>
   create_lambda_function api role_arn d = (Inr arn, d\<lparr>world := w3\<rparr>)"
  by (simp add: create_lambda_function_def io_defs)

text \<open>
  Claim C5, as stated, fails for the S3 bucket: when \<open>create_bucket\<close> itself answers
  that the bucket exists already (here after \<open>head_bucket\<close> reported it missing),
  \<open>create_s3_bucket\<close> reports a failed step.
\<close>

theorem create_s3_bucket_conflict_fails:
  "racing_api (HeadBucket S3_BUCKET_NAME) () = (Inl (ClientError ''404'' ''Not Found''), ()) \<and>
   racing_api (CreateBucket S3_BUCKET_NAME (Some AWS_REGION)) () =
     (Inl (ClientError ''BucketAlreadyOwnedByYou'' ''bucket exists''), ()) \<and>
   create_s3_bucket racing_api (new_lambda_deployer ()) = (Inr False, new_lambda_deployer ())"
  by (simp add: create_s3_bucket_def io_defs new_lambda_deployer_def AWS_REGION_def)

text \<open>
  Claim C5, amended. For the ECR repository, the IAM role, the Lambda function (of
  \<open>LambdaDeployer\<close> and of \<open>AWSDeployer\<close>, with the image URI set) and the Function
  URL, an already-exists or conflict error of the create call is caught, the existing
  resource is described (or updated in place, then described), and when these follow-up
  calls return the operation returns the identifier of the existing resource; a conflict
  of \<open>add_permission\<close> is ignored. For the S3 bucket an existing bucket is found by
  \<open>head_bucket\<close> before any create call and reused with a successful result; when
  \<open>head_bucket\<close> answers 404 and \<open>create_bucket\<close> raises a \<open>ClientError\<close>, whatever
  its code, the step returns \<open>False\<close> and calls nothing more.
\<close>

theorem conflict_reuses_existing:
  "(api (CreateRepository ECR_REPO_NAME) (world self) =
       (Inl (ClientError ''RepositoryAlreadyExistsException'' msg), w1) \<longrightarrow>
    api (DescribeRepositories ECR_REPO_NAME) w1 = (Inr uri, w2) \<longrightarrow>
    create_ecr_repository api self =
       (Inr True, self\<lparr>ecr_uri := Some uri, image_uri := Some (uri @ '':'' @ IMAGE_TAG),
                      world := w2\<rparr>)) \<and>
   (api (CreateRole role_name) (world self) =
       (Inl (ClientError ''EntityAlreadyExists'' msg), w1) \<longrightarrow>
    api (GetRole role_name) w1 = (Inr arn, w2) \<longrightarrow>
    api (PutRolePolicy role_name ''S3DatabaseAccessPolicy'') w2 = (Inr x, w3) \<longrightarrow>
    create_lambda_execution_role api self = (Inr (Some arn), self\<lparr>world := w3\<rparr>)) \<and>
   (image_uri self = Some img \<longrightarrow>
    api (CreateFunction LAMBDA_FUNCTION_NAME role_arn img) (world self) =
       (Inl (ClientError ''ResourceConflictException'' msg), w1) \<longrightarrow>
    api (UpdateFunctionCode LAMBDA_FUNCTION_NAME img) w1 = (Inr x1, w2) \<longrightarrow>
    api (WaitFunctionUpdated LAMBDA_FUNCTION_NAME) w2 = (Inr x2, w3) \<longrightarrow>
    api (UpdateFunctionConfiguration LAMBDA_FUNCTION_NAME (Some role_arn)) w3 = (Inr x3, w4) \<longrightarrow>
    api (WaitFunctionUpdated LAMBDA_FUNCTION_NAME) w4 = (Inr x4, w5) \<longrightarrow>
    api (GetFunction LAMBDA_FUNCTION_NAME) w5 = (Inr fn_arn, w6) \<longrightarrow>
    create_or_update_lambda_function api role_arn self =
       (Inr (Some fn_arn), self\<lparr>world := w6\<rparr>)) \<and>
   (api (CreateFunctionUrlConfig LAMBDA_FUNCTION_NAME) (world self) =
       (Inl (ClientError ''ResourceConflictException'' msg), w1) \<longrightarrow>
    api (GetFunctionUrlConfig LAMBDA_FUNCTION_NAME) w1 = (Inr url, w2) \<longrightarrow>
    create_function_url api self = (Inr (Some url), self\<lparr>world := w2\<rparr>)) \<and>
   (api (CreateFunctionUrlConfig LAMBDA_FUNCTION_NAME) (world self') = (Inr url, w1) \<longrightarrow>
    api (AddPermission LAMBDA_FUNCTION_NAME ''FunctionURLAllowPublicAccess'') w1 =
       (Inl (ClientError ''ResourceConflictException'' msg), w2) \<longrightarrow>
    create_function_url api self' = (Inr (Some url), self'\<lparr>world := w2\<rparr>)) \<and>
   (api (HeadBucket S3_BUCKET_NAME) (world self) = (Inr x, w1) \<longrightarrow>
    create_s3_bucket api self =
       (Inr True, self\<lparr>world := w1, s3_bucket_created := True\<rparr>)) \<and>
   (api (HeadBucket S3_BUCKET_NAME) (world self) = (Inl (ClientError ''404'' msg), w1) \<longrightarrow>
    api (CreateBucket S3_BUCKET_NAME (Some AWS_REGION)) w1 =
       (Inl (ClientError code msg'), w2) \<longrightarrow>
    create_s3_bucket api self = (Inr False, self\<lparr>world := w2\<rparr>)) \<and>
   (image_uri d = Some img \<longrightarrow>
    api (CreateFunction AWSDeployer_LAMBDA_FUNCTION_NAME role_arn img) (world d) =
       (Inl (ClientError ''ResourceConflictException'' msg), w1) \<longrightarrow>
    api (UpdateFunctionCode AWSDeployer_LAMBDA_FUNCTION_NAME img) w1 = (Inr x1, w2) \<longrightarrow>
    api (GetFunction AWSDeployer_LAMBDA_FUNCTION_NAME) w2 = (Inr fn_arn, w3) \<longrightarrow>
    create_lambda_function api role_arn d = (Inr fn_arn, d\<lparr>world := w3\<rparr>))"
  by (intro conjI impI ecr_conflict role_conflict function_conflict url_conflict
        permission_conflict bucket_exists bucket_conflict aws_function_conflict; assumption)

theorem conflict_reuses_existing_witness:
  "cloud_api (CreateRepository ECR_REPO_NAME) (world rerun_deployer) =
     (Inl (ClientError ''RepositoryAlreadyExistsException'' ''repository exists''),
      provisioned_cloud) \<and>
   cloud_api (DescribeRepositories ECR_REPO_NAME) provisioned_cloud =
     (Inr ''registry.example/python-repl-container-lambda'', provisioned_cloud) \<and>
   create_ecr_repository cloud_api rerun_deployer =
     (Inr True,
      rerun_deployer\<lparr>ecr_uri := Some ''registry.example/python-repl-container-lambda'',
        image_uri := Some (''registry.example/python-repl-container-lambda'' @ '':'' @ IMAGE_TAG),
        world := provisioned_cloud\<rparr>) \<and>
   cloud_api (CreateRole role_name) (world rerun_deployer) =
     (Inl (ClientError ''EntityAlreadyExists'' ''role exists''), provisioned_cloud) \<and>
   cloud_api (GetRole role_name) provisioned_cloud =
     (Inr ''arn:aws:iam::1:role/existing'', provisioned_cloud) \<and>
   cloud_api (PutRolePolicy role_name ''S3DatabaseAccessPolicy'') provisioned_cloud =
     (Inr [], provisioned_cloud) \<and>
   create_lambda_execution_role cloud_api rerun_deployer =
     (Inr (Some ''arn:aws:iam::1:role/existing''),
      rerun_deployer\<lparr>world := provisioned_cloud\<rparr>) \<and>
   image_uri rerun_deployer =
     Some (''registry.example/python-repl-container-lambda'' @ '':'' @ IMAGE_TAG) \<and>
   cloud_api (CreateFunction LAMBDA_FUNCTION_NAME ''role''
                (''registry.example/python-repl-container-lambda'' @ '':'' @ IMAGE_TAG))
       (world rerun_deployer) =
     (Inl (ClientError ''ResourceConflictException'' ''function exists''), provisioned_cloud) \<and>
   cloud_api (UpdateFunctionCode LAMBDA_FUNCTION_NAME
                (''registry.example/python-repl-container-lambda'' @ '':'' @ IMAGE_TAG))
       provisioned_cloud =
     (Inr ''arn:aws:lambda:1:function:existing'', provisioned_cloud) \<and>
   cloud_api (WaitFunctionUpdated LAMBDA_FUNCTION_NAME) provisioned_cloud =
     (Inr [], provisioned_cloud) \<and>
   cloud_api (UpdateFunctionConfiguration LAMBDA_FUNCTION_NAME (Some ''role'')) provisioned_cloud =
     (Inr ''arn:aws:lambda:1:function:existing'', provisioned_cloud) \<and>
   cloud_api (GetFunction LAMBDA_FUNCTION_NAME) provisioned_cloud =
     (Inr ''arn:aws:lambda:1:function:existing'', provisioned_cloud) \<and>
   create_or_update_lambda_function cloud_api ''role'' rerun_deployer =
     (Inr (Some ''arn:aws:lambda:1:function:existing''),
      rerun_deployer\<lparr>world := provisioned_cloud\<rparr>) \<and>
   cloud_api (CreateFunctionUrlConfig LAMBDA_FUNCTION_NAME) (world rerun_deployer) =
     (Inl (ClientError ''ResourceConflictException'' ''url exists''), provisioned_cloud) \<and>
   cloud_api (GetFunctionUrlConfig LAMBDA_FUNCTION_NAME) provisioned_cloud =
     (Inr ''https://existing.on.aws/'', provisioned_cloud) \<and>
   create_function_url cloud_api rerun_deployer =
     (Inr (Some ''https://existing.on.aws/''),
      rerun_deployer\<lparr>world := provisioned_cloud\<rparr>) \<and>
   cloud_api (CreateFunctionUrlConfig LAMBDA_FUNCTION_NAME)
       (world (new_lambda_deployer cloud_without_url)) =
     (Inr (''https://'' @ LAMBDA_FUNCTION_NAME @ ''.lambda-url.'' @ AWS_REGION @ ''.on.aws/''),
      cloud_with_new_url) \<and>
   cloud_api (AddPermission LAMBDA_FUNCTION_NAME ''FunctionURLAllowPublicAccess'')
       cloud_with_new_url =
     (Inl (ClientError ''ResourceConflictException'' ''statement exists''),
      cloud_with_new_url) \<and>
   create_function_url cloud_api (new_lambda_deployer cloud_without_url) =
     (Inr (Some (''https://'' @ LAMBDA_FUNCTION_NAME @ ''.lambda-url.'' @ AWS_REGION @
                 ''.on.aws/'')),
      new_lambda_deployer cloud_without_url\<lparr>world := cloud_with_new_url\<rparr>) \<and>
   cloud_api (HeadBucket S3_BUCKET_NAME) (world rerun_deployer) =
     (Inr [], provisioned_cloud) \<and>
   create_s3_bucket cloud_api rerun_deployer =
     (Inr True, rerun_deployer\<lparr>world := provisioned_cloud, s3_bucket_created := True\<rparr>) \<and>
   racing_api (HeadBucket S3_BUCKET_NAME) (world (new_lambda_deployer ())) =
     (Inl (ClientError ''404'' ''Not Found''), ()) \<and>
   racing_api (CreateBucket S3_BUCKET_NAME (Some AWS_REGION)) () =
     (Inl (ClientError ''BucketAlreadyOwnedByYou'' ''bucket exists''), ()) \<and>
   create_s3_bucket racing_api (new_lambda_deployer ()) =
     (Inr False, new_lambda_deployer ()\<lparr>world := ()\<rparr>) \<and>
   image_uri rerun_aws_deployer = Some ''registry.example/lambda-python-repl:latest'' \<and>
   cloud_api (CreateFunction AWSDeployer_LAMBDA_FUNCTION_NAME ''role''
                ''registry.example/lambda-python-repl:latest'')
       (world rerun_aws_deployer) =
     (Inl (ClientError ''ResourceConflictException'' ''function exists''), provisioned_cloud) \<and>
   cloud_api (UpdateFunctionCode AWSDeployer_LAMBDA_FUNCTION_NAME
                ''registry.example/lambda-python-repl:latest'') provisioned_cloud =
     (Inr ''arn:aws:lambda:1:function:repl'', provisioned_cloud) \<and>
   cloud_api (GetFunction AWSDeployer_LAMBDA_FUNCTION_NAME) provisioned_cloud =
     (Inr ''arn:aws:lambda:1:function:repl'', provisioned_cloud) \<and>
   create_lambda_function cloud_api ''role'' rerun_aws_deployer =
     (Inr ''arn:aws:lambda:1:function:repl'',
      rerun_aws_deployer\<lparr>world := provisioned_cloud\<rparr>)"
proof -
  note names = ECR_REPO_NAME_def role_name_def LAMBDA_FUNCTION_NAME_def S3_BUCKET_NAME_def
    AWSDeployer_LAMBDA_FUNCTION_NAME_def
  note worlds = rerun_deployer_def rerun_aws_deployer_def provisioned_cloud_def lookup_def
    new_deployer_def new_lambda_deployer_def cloud_without_url_def cloud_with_new_url_def
  have e1: "cloud_api (CreateRepository ECR_REPO_NAME) (world rerun_deployer) =
     (Inl (ClientError ''RepositoryAlreadyExistsException'' ''repository exists''),
      provisioned_cloud)"
    by (simp add: names worlds)
  have e2: "cloud_api (DescribeRepositories ECR_REPO_NAME) provisioned_cloud =
     (Inr ''registry.example/python-repl-container-lambda'', provisioned_cloud)"
    by (simp add: names worlds)
  have r1: "cloud_api (CreateRole role_name) (world rerun_deployer) =
     (Inl (ClientError ''EntityAlreadyExists'' ''role exists''), provisioned_cloud)"
    by (simp add: names worlds)
  have r2: "cloud_api (GetRole role_name) provisioned_cloud =
     (Inr ''arn:aws:iam::1:role/existing'', provisioned_cloud)"
    by (simp add: names worlds)
  have r3: "cloud_api (PutRolePolicy role_name ''S3DatabaseAccessPolicy'') provisioned_cloud =
     (Inr [], provisioned_cloud)"
    by simp
  have i1: "image_uri rerun_deployer =
     Some (''registry.example/python-repl-container-lambda'' @ '':'' @ IMAGE_TAG)"
    by (simp add: rerun_deployer_def)
  have f1: "cloud_api (CreateFunction LAMBDA_FUNCTION_NAME ''role''
                (''registry.example/python-repl-container-lambda'' @ '':'' @ IMAGE_TAG))
       (world rerun_deployer) =
     (Inl (ClientError ''ResourceConflictException'' ''function exists''), provisioned_cloud)"
    by (simp add: names worlds)
  have f2: "cloud_api (UpdateFunctionCode LAMBDA_FUNCTION_NAME
                (''registry.example/python-repl-container-lambda'' @ '':'' @ IMAGE_TAG))
       provisioned_cloud =
     (Inr ''arn:aws:lambda:1:function:existing'', provisioned_cloud)"
    by (simp add: names worlds)
  have f3: "cloud_api (WaitFunctionUpdated LAMBDA_FUNCTION_NAME) provisioned_cloud =
     (Inr [], provisioned_cloud)"
    by simp
  have f4: "cloud_api (UpdateFunctionConfiguration LAMBDA_FUNCTION_NAME (Some ''role''))
       provisioned_cloud =
     (Inr ''arn:aws:lambda:1:function:existing'', provisioned_cloud)"
    by (simp add: names worlds)
  have f5: "cloud_api (GetFunction LAMBDA_FUNCTION_NAME) provisioned_cloud =
     (Inr ''arn:aws:lambda:1:function:existing'', provisioned_cloud)"
    by (simp add: names worlds)
  have u1: "cloud_api (CreateFunctionUrlConfig LAMBDA_FUNCTION_NAME) (world rerun_deployer) =
     (Inl (ClientError ''ResourceConflictException'' ''url exists''), provisioned_cloud)"
    by (simp add: names worlds)
  have u2: "cloud_api (GetFunctionUrlConfig LAMBDA_FUNCTION_NAME) provisioned_cloud =
     (Inr ''https://existing.on.aws/'', provisioned_cloud)"
    by (simp add: names worlds)
  have p1: "cloud_api (CreateFunctionUrlConfig LAMBDA_FUNCTION_NAME)
       (world (new_lambda_deployer cloud_without_url)) =
     (Inr (''https://'' @ LAMBDA_FUNCTION_NAME @ ''.lambda-url.'' @ AWS_REGION @ ''.on.aws/''),
      cloud_with_new_url)"
    by (simp add: names worlds)
  have p2: "cloud_api (AddPermission LAMBDA_FUNCTION_NAME ''FunctionURLAllowPublicAccess'')
       cloud_with_new_url =
     (Inl (ClientError ''ResourceConflictException'' ''statement exists''),
      cloud_with_new_url)"
    by (simp add: names worlds)
  have b1: "cloud_api (HeadBucket S3_BUCKET_NAME) (world rerun_deployer) =
     (Inr [], provisioned_cloud)"
    by (simp add: names worlds)
  have k1: "racing_api (HeadBucket S3_BUCKET_NAME) (world (new_lambda_deployer ())) =
     (Inl (ClientError ''404'' ''Not Found''), ())"
    by simp
  have k2: "racing_api (CreateBucket S3_BUCKET_NAME (Some AWS_REGION)) () =
     (Inl (ClientError ''BucketAlreadyOwnedByYou'' ''bucket exists''), ())"
    by simp
  have i2: "image_uri rerun_aws_deployer = Some ''registry.example/lambda-python-repl:latest''"
    by (simp add: rerun_aws_deployer_def)
  have a1: "cloud_api (CreateFunction AWSDeployer_LAMBDA_FUNCTION_NAME ''role''
                ''registry.example/lambda-python-repl:latest'')
       (world rerun_aws_deployer) =
     (Inl (ClientError ''ResourceConflictException'' ''function exists''), provisioned_cloud)"
    by (simp add: names worlds)
  have a2: "cloud_api (UpdateFunctionCode AWSDeployer_LAMBDA_FUNCTION_NAME
                ''registry.example/lambda-python-repl:latest'') provisioned_cloud =
     (Inr ''arn:aws:lambda:1:function:repl'', provisioned_cloud)"
    by (simp add: names worlds)
  have a3: "cloud_api (GetFunction AWSDeployer_LAMBDA_FUNCTION_NAME) provisioned_cloud =
     (Inr ''arn:aws:lambda:1:function:repl'', provisioned_cloud)"
    by (simp add: names worlds)
  note T = conflict_reuses_existing [where api = cloud_api]
  note R = conflict_reuses_existing [where api = racing_api]
  have c1: "create_ecr_repository cloud_api rerun_deployer =
     (Inr True,
      rerun_deployer\<lparr>ecr_uri := Some ''registry.example/python-repl-container-lambda'',
        image_uri := Some (''registry.example/python-repl-container-lambda'' @ '':'' @ IMAGE_TAG),
        world := provisioned_cloud\<rparr>)"
    using T [THEN conjunct1, rule_format, OF e1 e2] .
  have c2: "create_lambda_execution_role cloud_api rerun_deployer =
     (Inr (Some ''arn:aws:iam::1:role/existing''),
      rerun_deployer\<lparr>world := provisioned_cloud\<rparr>)"
    using T [THEN conjunct2, THEN conjunct1, rule_format, OF r1 r2 r3] .
  have c3: "create_or_update_lambda_function cloud_api ''role'' rerun_deployer =
     (Inr (Some ''arn:aws:lambda:1:function:existing''),
      rerun_deployer\<lparr>world := provisioned_cloud\<rparr>)"
    using T [THEN conjunct2, THEN conjunct2, THEN conjunct1, rule_format,
               OF i1 f1 f2 f3 f4 f3 f5] .
  have c4: "create_function_url cloud_api rerun_deployer =
     (Inr (Some ''https://existing.on.aws/''),
      rerun_deployer\<lparr>world := provisioned_cloud\<rparr>)"
    using T [THEN conjunct2, THEN conjunct2, THEN conjunct2, THEN conjunct1, rule_format,
               OF u1 u2] .
  have c5: "create_function_url cloud_api (new_lambda_deployer cloud_without_url) =
     (Inr (Some (''https://'' @ LAMBDA_FUNCTION_NAME @ ''.lambda-url.'' @ AWS_REGION @
                 ''.on.aws/'')),
      new_lambda_deployer cloud_without_url\<lparr>world := cloud_with_new_url\<rparr>)"
    using T [THEN conjunct2, THEN conjunct2, THEN conjunct2, THEN conjunct2, THEN conjunct1,
               rule_format, OF p1 p2] .
  have c6: "create_s3_bucket cloud_api rerun_deployer =
     (Inr True, rerun_deployer\<lparr>world := provisioned_cloud, s3_bucket_created := True\<rparr>)"
    using T [THEN conjunct2, THEN conjunct2, THEN conjunct2, THEN conjunct2, THEN conjunct2,
               THEN conjunct1, rule_format, OF b1] .
  have c7: "create_s3_bucket racing_api (new_lambda_deployer ()) =
     (Inr False, new_lambda_deployer ()\<lparr>world := ()\<rparr>)"
    using R [THEN conjunct2, THEN conjunct2, THEN conjunct2, THEN conjunct2, THEN conjunct2,
               THEN conjunct2, THEN conjunct1, rule_format, OF k1 k2] .
  have c8: "create_lambda_function cloud_api ''role'' rerun_aws_deployer =
     (Inr ''arn:aws:lambda:1:function:repl'',
      rerun_aws_deployer\<lparr>world := provisioned_cloud\<rparr>)"
    using T [THEN conjunct2, THEN conjunct2, THEN conjunct2, THEN conjunct2, THEN conjunct2,
               THEN conjunct2, THEN conjunct2, rule_format, OF i2 a1 a2 a3] .
  show ?thesis
    by (intro conjI e1 e2 c1 r1 r2 r3 c2 i1 f1 f2 f3 f4 f5 c3 u1 u2 c4 p1 p2 c5 b1 c6
          k1 k2 c7 i2 a1 a2 a3 c8)
qed

text \<open>
  Claim C6. On the reference cloud, from every state of the cloud and of the deployer,
  calling a provisioning operation twice in succession yields the same identifier both
  times, and it is the identifier under which the cloud stores the resource: the
  repository URI of \<open>AppRunnerDeployer.create_ecr_repository\<close>, the role ARN of
  \<open>create_lambda_execution_role\<close>, and for \<open>create_s3_bucket\<close> the bucket
  \<open>S3_BUCKET_NAME\<close>. The resource exists after the first call, and the second call
  leaves the cloud as the first call left it: nothing is created twice.
\<close>

theorem provision_twice_same_identifier:
  "(\<exists>uri d1 d2.
      apprunner_create_ecr_repository cloud_api d = (Inr (Some uri), d1) \<and>
      apprunner_create_ecr_repository cloud_api d1 = (Inr (Some uri), d2) \<and>
      map_of (repositories (world d1)) ECR_REPO_NAME = Some uri \<and>
      ecr_uri d1 = Some uri \<and> ecr_uri d2 = Some uri \<and>
      image_uri d2 = image_uri d1 \<and> world d2 = world d1) \<and>
   (\<exists>self1 self2.
      create_s3_bucket cloud_api self = (Inr True, self1) \<and>
      create_s3_bucket cloud_api self1 = (Inr True, self2) \<and>
      S3_BUCKET_NAME \<in> set (buckets (world self1)) \<and>
      s3_bucket_created self1 \<and> self2 = self1) \<and>
   (\<exists>arn self1 self2.
      create_lambda_execution_role cloud_api self = (Inr (Some arn), self1) \<and>
      create_lambda_execution_role cloud_api self1 = (Inr (Some arn), self2) \<and>
      map_of (roles (world self1)) role_name = Some arn \<and> self2 = self1)"
proof (intro conjI)
  show "\<exists>uri d1 d2.
      apprunner_create_ecr_repository cloud_api d = (Inr (Some uri), d1) \<and>
      apprunner_create_ecr_repository cloud_api d1 = (Inr (Some uri), d2) \<and>
      map_of (repositories (world d1)) ECR_REPO_NAME = Some uri \<and>
      ecr_uri d1 = Some uri \<and> ecr_uri d2 = Some uri \<and>
      image_uri d2 = image_uri d1 \<and> world d2 = world d1"
    by (cases "map_of (repositories (world d)) ECR_REPO_NAME")
       (simp_all add: apprunner_create_ecr_repository_def io_defs lookup_def)
  show "\<exists>self1 self2.
      create_s3_bucket cloud_api self = (Inr True, self1) \<and>
      create_s3_bucket cloud_api self1 = (Inr True, self2) \<and>
      S3_BUCKET_NAME \<in> set (buckets (world self1)) \<and>
      s3_bucket_created self1 \<and> self2 = self1"
    by (cases "S3_BUCKET_NAME \<in> set (buckets (world self))")
       (simp_all add: create_s3_bucket_def io_defs AWS_REGION_def)
  show "\<exists>arn self1 self2.
      create_lambda_execution_role cloud_api self = (Inr (Some arn), self1) \<and>
      create_lambda_execution_role cloud_api self1 = (Inr (Some arn), self2) \<and>
      map_of (roles (world self1)) role_name = Some arn \<and> self2 = self1"
    by (cases "map_of (roles (world self)) role_name")
       (simp_all add: create_lambda_execution_role_def io_defs lookup_def)
qed

section \<open>Exit status\<close>




section \<open>The command helper and stage 4\<close>

text \<open>
  Claim C2, as stated, fails for a program that cannot be started: \<open>subprocess.run\<close>
  raises an \<open>OSError\<close> then, which \<open>run\<close> does not catch.
\<close>

theorem run_cmd_missing_executable_raises:
  "run_cmd missing_tool [''docker'', ''info''] \<lparr>world = ()\<rparr> =
     (Inl (OSError ''[Errno 2] No such file or directory''), \<lparr>world = ()\<rparr>)"
  by (simp add: run_cmd_def io_defs missing_tool_def)

text \<open>
  Claim C2, amended. \<open>run\<close> returns \<open>True\<close> with the stripped output when
  \<open>subprocess.run\<close> returns. When \<open>subprocess.run\<close> raises \<open>CalledProcessError\<close> (the
  command was started, its output was decoded, its exit status is not 0), \<open>run\<close> does
  not raise: it returns \<open>False\<close> with the captured output, stripped, the text of the
  exception standing in for an empty error stream. Every other exception of
  \<open>subprocess.run\<close> propagates out of \<open>run\<close> unchanged: the \<open>OSError\<close> of a program that
  cannot be started, the \<open>UnicodeDecodeError\<close> of output that is no text.
\<close>

theorem run_cmd_outcomes:
  "(sh cmd (world self) = (Inr (out', err'), w') \<longrightarrow>
      run_cmd sh cmd self = (Inr (True, strip out', strip err'), self\<lparr>world := w'\<rparr>)) \<and>
   (sh cmd (world self) = (Inl (CalledProcessError out err msg), w') \<longrightarrow>
      run_cmd sh cmd self =
        (Inr (False,
              (if truthy out then strip (fmt out) else []),
              (if truthy err then strip (fmt err) else msg)),
         self\<lparr>world := w'\<rparr>)) \<and>
   (sh cmd (world self) = (Inl e, w') \<longrightarrow>
    (\<forall>out err msg. e \<noteq> CalledProcessError out err msg) \<longrightarrow>
      run_cmd sh cmd self = (Inl e, self\<lparr>world := w'\<rparr>))"
proof (intro conjI impI)
  assume "sh cmd (world self) = (Inr (out', err'), w')"
  then show "run_cmd sh cmd self = (Inr (True, strip out', strip err'), self\<lparr>world := w'\<rparr>)"
    by (simp add: run_cmd_def io_defs)
next
  assume "sh cmd (world self) = (Inl (CalledProcessError out err msg), w')"
  then show "run_cmd sh cmd self =
        (Inr (False,
              (if truthy out then strip (fmt out) else []),
              (if truthy err then strip (fmt err) else msg)),
         self\<lparr>world := w'\<rparr>)"
    by (simp add: run_cmd_def io_defs)
next
  assume "sh cmd (world self) = (Inl e, w')"
    and "\<forall>out err msg. e \<noteq> CalledProcessError out err msg"
  then show "run_cmd sh cmd self = (Inl e, self\<lparr>world := w'\<rparr>)"
    by (cases e) (simp_all add: run_cmd_def io_defs)
qed

theorem run_cmd_outcomes_witness:
  "login_fails [''docker'', ''info''] (world (updater [] ''1.2.0'')) =
     (Inr ([], []), [[''docker'', ''info'']]) \<and>
   run_cmd login_fails [''docker'', ''info''] (updater [] ''1.2.0'') =
     (Inr (True, [], []), updater [] ''1.2.0''\<lparr>world := [[''docker'', ''info'']]\<rparr>) \<and>
   login_fails docker_login (world (updater [] ''1.2.0'')) =
     (Inl (CalledProcessError (Some []) (Some ''Error: Cannot perform an interactive login'')
             ''Command returned non-zero exit status 1.''), [docker_login]) \<and>
   run_cmd login_fails docker_login (updater [] ''1.2.0'') =
     (Inr (False, [], ''Error: Cannot perform an interactive login''),
      updater [] ''1.2.0''\<lparr>world := [docker_login]\<rparr>) \<and>
   missing_tool [''docker'', ''info''] (world (updater () ''1.2.0'')) =
     (Inl (OSError ''[Errno 2] No such file or directory''), ()) \<and>
   run_cmd missing_tool [''docker'', ''info''] (updater () ''1.2.0'') =
     (Inl (OSError ''[Errno 2] No such file or directory''), updater () ''1.2.0''\<lparr>world := ()\<rparr>) \<and>
   garbled_tool [''docker'', ''info''] (world (updater () ''1.2.0'')) =
     (Inl (UnicodeDecodeError ''utf-8 codec cannot decode byte 0xff in position 0''), ()) \<and>
   run_cmd garbled_tool [''docker'', ''info''] (updater () ''1.2.0'') =
     (Inl (UnicodeDecodeError ''utf-8 codec cannot decode byte 0xff in position 0''),
      updater () ''1.2.0''\<lparr>world := ()\<rparr>)"
proof -
  have h0: "login_fails [''docker'', ''info''] (world (updater [] ''1.2.0'')) =
     (Inr ([], []), [[''docker'', ''info'']])"
    by (simp add: login_fails_def updater_def docker_login_def)
  have h1: "login_fails docker_login (world (updater [] ''1.2.0'')) =
     (Inl (CalledProcessError (Some []) (Some ''Error: Cannot perform an interactive login'')
             ''Command returned non-zero exit status 1.''), [docker_login])"
    by (simp add: login_fails_def updater_def)
  have h2: "missing_tool [''docker'', ''info''] (world (updater () ''1.2.0'')) =
     (Inl (OSError ''[Errno 2] No such file or directory''), ())"
    by (simp add: missing_tool_def)
  have h3: "garbled_tool [''docker'', ''info''] (world (updater () ''1.2.0'')) =
     (Inl (UnicodeDecodeError ''utf-8 codec cannot decode byte 0xff in position 0''), ())"
    by (simp add: garbled_tool_def)
  have n2: "\<forall>out err msg. OSError ''[Errno 2] No such file or directory'' \<noteq>
      CalledProcessError out err msg"
    by simp
  have n3: "\<forall>out err msg.
      UnicodeDecodeError ''utf-8 codec cannot decode byte 0xff in position 0'' \<noteq>
      CalledProcessError out err msg"
    by simp
  have s: "strip ''Error: Cannot perform an interactive login'' =
             ''Error: Cannot perform an interactive login''"
    by (simp add: strip_def isspace_def)
  have s0: "strip [] = []"
    by (simp add: strip_def)
  have c0: "run_cmd login_fails [''docker'', ''info''] (updater [] ''1.2.0'') =
     (Inr (True, [], []), updater [] ''1.2.0''\<lparr>world := [[''docker'', ''info'']]\<rparr>)"
    using run_cmd_outcomes [where sh = login_fails, THEN conjunct1, rule_format, OF h0]
    by (simp add: s0)
  have c1: "run_cmd login_fails docker_login (updater [] ''1.2.0'') =
     (Inr (False, [], ''Error: Cannot perform an interactive login''),
      updater [] ''1.2.0''\<lparr>world := [docker_login]\<rparr>)"
    using run_cmd_outcomes [where sh = login_fails, THEN conjunct2, THEN conjunct1,
        rule_format, OF h1]
    by (simp add: s)
  have c2: "run_cmd missing_tool [''docker'', ''info''] (updater () ''1.2.0'') =
     (Inl (OSError ''[Errno 2] No such file or directory''), updater () ''1.2.0''\<lparr>world := ()\<rparr>)"
    using run_cmd_outcomes [where sh = missing_tool, THEN conjunct2, THEN conjunct2,
        rule_format, OF h2] n2 by blast
  have c3: "run_cmd garbled_tool [''docker'', ''info''] (updater () ''1.2.0'') =
     (Inl (UnicodeDecodeError ''utf-8 codec cannot decode byte 0xff in position 0''),
      updater () ''1.2.0''\<lparr>world := ()\<rparr>)"
    using run_cmd_outcomes [where sh = garbled_tool, THEN conjunct2, THEN conjunct2,
        rule_format, OF h3] n3 by blast
  show ?thesis by (intro conjI h0 c0 h1 c1 h2 c2 h3 c3)
qed

lemma run_cmd_ok:
  "sh cmd (world self) = (Inr r, w') \<Longrightarrow>
   run_cmd sh cmd self = (Inr (True, strip (fst r), strip (snd r)), self\<lparr>world := w'\<rparr>)"
  by (simp add: run_cmd_def io_defs)

lemma run_cmd_failed:
  "sh cmd (world self) = (Inl (CalledProcessError out err msg), w') \<Longrightarrow>
   \<exists>out' err'. run_cmd sh cmd self = (Inr (False, out', err'), self\<lparr>world := w'\<rparr>)"
  by (simp add: run_cmd_def io_defs)

lemma run_cmd_raises:
  "sh cmd (world self) = (Inl e, w') \<Longrightarrow>
   \<forall>out err msg. e \<noteq> CalledProcessError out err msg \<Longrightarrow>
   run_cmd sh cmd self = (Inl e, self\<lparr>world := w'\<rparr>)"
  by (cases e) (simp_all add: run_cmd_def io_defs)

lemma push_images_run_commands:
  "push_images sh images = run_commands sh (concat (map image_commands images))"
proof (induction images)
  case Nil
  then show ?case by simp
next
  case (Cons img images)
  obtain local_tag hub_tag hub_latest_tag where "img = (local_tag, hub_tag, hub_latest_tag)"
    by (cases img)
  with Cons.IH show ?case by (simp cong del: if_weak_cong)
qed

lemma run_commands_all_ok:
  "commands_ok sh cmds (world self) = Some w1 \<Longrightarrow>
   run_commands sh cmds self = (Inr True, self\<lparr>world := w1\<rparr>)"
proof (induction cmds arbitrary: self)
  case Nil
  then show ?case by (simp add: ret_def)
next
  case (Cons cmd cmds)
  obtain x w' where sh: "sh cmd (world self) = (x, w')" by (cases "sh cmd (world self)")
  show ?case
  proof (cases x)
    case (Inl e)
    with Cons.prems sh show ?thesis by simp
  next
    case (Inr r)
    with Cons.prems sh have "commands_ok sh cmds (world (self\<lparr>world := w'\<rparr>)) = Some w1"
      by simp
    from Cons.IH [OF this] run_cmd_ok [of sh cmd self r w'] sh Inr show ?thesis
      by (simp add: andthen_def)
  qed
qed

lemma run_commands_stops:
  "commands_ok sh pre (world self) = Some w1 \<Longrightarrow>
   run_cmd sh cmd (self\<lparr>world := w1\<rparr>) = (Inr (False, out, err), self') \<Longrightarrow>
   run_commands sh (pre @ cmd # post) self = (Inr False, self')"
proof (induction pre arbitrary: self)
  case Nil
  then have "world self = w1" by simp
  then have "self\<lparr>world := w1\<rparr> = self" by auto
  with Nil.prems(2) show ?case by (simp add: andthen_def ret_def)
next
  case (Cons c pre)
  obtain x w' where sh: "sh c (world self) = (x, w')" by (cases "sh c (world self)")
  show ?case
  proof (cases x)
    case (Inl e)
    with Cons.prems sh show ?thesis by simp
  next
    case (Inr r)
    with Cons.prems sh have "commands_ok sh pre (world (self\<lparr>world := w'\<rparr>)) = Some w1"
      by simp
    from Cons.IH [OF this] Cons.prems(2) run_cmd_ok [of sh c self r w'] sh Inr show ?thesis
      by (simp add: andthen_def)
  qed
qed

lemma run_commands_raises:
  "commands_ok sh pre (world self) = Some w1 \<Longrightarrow>
   run_cmd sh cmd (self\<lparr>world := w1\<rparr>) = (Inl e, self') \<Longrightarrow>
   run_commands sh (pre @ cmd # post) self = (Inl e, self')"
proof (induction pre arbitrary: self)
  case Nil
  then have "world self = w1" by simp
  then have "self\<lparr>world := w1\<rparr> = self" by auto
  with Nil.prems(2) show ?case by (simp add: andthen_def)
next
  case (Cons c pre)
  obtain x w' where sh: "sh c (world self) = (x, w')" by (cases "sh c (world self)")
  show ?case
  proof (cases x)
    case (Inl e)
    with Cons.prems sh show ?thesis by simp
  next
    case (Inr r)
    with Cons.prems sh have "commands_ok sh pre (world (self\<lparr>world := w'\<rparr>)) = Some w1"
      by simp
    from Cons.IH [OF this] Cons.prems(2) run_cmd_ok [of sh c self r w'] sh Inr show ?thesis
      by (simp add: andthen_def)
  qed
qed

lemma images_to_push_world: "images_to_push (self\<lparr>world := w\<rparr>) = images_to_push self"
  by (simp add: images_to_push_def)

lemma stage_04_after_login:
  assumes "sh docker_login (world self) = (login, w0)"
    and "(\<exists>output. login = Inr output) \<or> (\<exists>out err msg. login = Inl (CalledProcessError out err msg))"
  shows "stage_04_push_to_dockerhub sh self =
           run_commands sh (stage_04_commands self) (self\<lparr>world := w0\<rparr>)"
  using assms
  by (auto simp: stage_04_push_to_dockerhub_def run_cmd_def io_defs images_to_push_world
        push_images_run_commands stage_04_commands_def)

text \<open>
  Claim C9. In stage 4 the result of \<open>docker login\<close> is never inspected. Whether the
  login command exits with status 0 or with a failure, the stage goes on to tag and push
  the four image tags, with eight commands (for each of the two images: tag the
  version, tag \<open>latest\<close>, push the version, push \<open>latest\<close>). When all eight exit with
  status 0 the stage returns \<open>True\<close>, also after a failed login. The stage returns
  \<open>False\<close> exactly at the first of the eight that fails, and issues no command after
  it; an exception of a command other than \<open>CalledProcessError\<close> leaves the stage.
\<close>

theorem stage_04_ignores_login:
  assumes "sh docker_login (world self) = (login, w0)"
    and "login = Inr output \<or> login = Inl (CalledProcessError out err msg)"
  shows "stage_04_commands self =
           [[''docker'', ''tag'', DOCKER_APP_IMAGE @ '':'' @ image_tag self,
             DOCKERHUB_USERNAME @ ''/'' @ DOCKER_APP_IMAGE @ '':'' @ image_tag self],
            [''docker'', ''tag'', DOCKER_APP_IMAGE @ '':'' @ image_tag self,
             DOCKERHUB_USERNAME @ ''/'' @ DOCKER_APP_IMAGE @ '':latest''],
            [''docker'', ''push'',
             DOCKERHUB_USERNAME @ ''/'' @ DOCKER_APP_IMAGE @ '':'' @ image_tag self],
            [''docker'', ''push'', DOCKERHUB_USERNAME @ ''/'' @ DOCKER_APP_IMAGE @ '':latest''],
            [''docker'', ''tag'', DOCKER_DB_INIT_IMAGE @ '':'' @ image_tag self,
             DOCKERHUB_USERNAME @ ''/'' @ DOCKER_DB_INIT_IMAGE @ '':'' @ image_tag self],
            [''docker'', ''tag'', DOCKER_DB_INIT_IMAGE @ '':'' @ image_tag self,
             DOCKERHUB_USERNAME @ ''/'' @ DOCKER_DB_INIT_IMAGE @ '':latest''],
            [''docker'', ''push'',
             DOCKERHUB_USERNAME @ ''/'' @ DOCKER_DB_INIT_IMAGE @ '':'' @ image_tag self],
            [''docker'', ''push'',
             DOCKERHUB_USERNAME @ ''/'' @ DOCKER_DB_INIT_IMAGE @ '':latest'']] \<and>
         (commands_ok sh (stage_04_commands self) w0 = Some w1 \<longrightarrow>
           stage_04_push_to_dockerhub sh self = (Inr True, self\<lparr>world := w1\<rparr>)) \<and>
         (stage_04_commands self = pre @ cmd # post \<longrightarrow>
          commands_ok sh pre w0 = Some w1 \<longrightarrow>
          sh cmd w1 = (Inl (CalledProcessError out' err' msg'), w2) \<longrightarrow>
           stage_04_push_to_dockerhub sh self = (Inr False, self\<lparr>world := w2\<rparr>)) \<and>
         (stage_04_commands self = pre @ cmd # post \<longrightarrow>
          commands_ok sh pre w0 = Some w1 \<longrightarrow>
          sh cmd w1 = (Inl e, w2) \<longrightarrow>
          (\<forall>out err msg. e \<noteq> CalledProcessError out err msg) \<longrightarrow>
           stage_04_push_to_dockerhub sh self = (Inl e, self\<lparr>world := w2\<rparr>))"
proof -
  have eq: "stage_04_push_to_dockerhub sh self =
           run_commands sh (stage_04_commands self) (self\<lparr>world := w0\<rparr>)"
    using assms by (intro stage_04_after_login) auto
  have a: "stage_04_commands self =
           [[''docker'', ''tag'', DOCKER_APP_IMAGE @ '':'' @ image_tag self,
             DOCKERHUB_USERNAME @ ''/'' @ DOCKER_APP_IMAGE @ '':'' @ image_tag self],
            [''docker'', ''tag'', DOCKER_APP_IMAGE @ '':'' @ image_tag self,
             DOCKERHUB_USERNAME @ ''/'' @ DOCKER_APP_IMAGE @ '':latest''],
            [''docker'', ''push'',
             DOCKERHUB_USERNAME @ ''/'' @ DOCKER_APP_IMAGE @ '':'' @ image_tag self],
            [''docker'', ''push'', DOCKERHUB_USERNAME @ ''/'' @ DOCKER_APP_IMAGE @ '':latest''],
            [''docker'', ''tag'', DOCKER_DB_INIT_IMAGE @ '':'' @ image_tag self,
             DOCKERHUB_USERNAME @ ''/'' @ DOCKER_DB_INIT_IMAGE @ '':'' @ image_tag self],
            [''docker'', ''tag'', DOCKER_DB_INIT_IMAGE @ '':'' @ image_tag self,
             DOCKERHUB_USERNAME @ ''/'' @ DOCKER_DB_INIT_IMAGE @ '':latest''],
            [''docker'', ''push'',
             DOCKERHUB_USERNAME @ ''/'' @ DOCKER_DB_INIT_IMAGE @ '':'' @ image_tag self],
            [''docker'', ''push'',
             DOCKERHUB_USERNAME @ ''/'' @ DOCKER_DB_INIT_IMAGE @ '':latest'']]"
    by (simp add: stage_04_commands_def images_to_push_def)
  have b: "commands_ok sh (stage_04_commands self) w0 = Some w1 \<longrightarrow>
           stage_04_push_to_dockerhub sh self = (Inr True, self\<lparr>world := w1\<rparr>)"
  proof
    assume "commands_ok sh (stage_04_commands self) w0 = Some w1"
    then have "commands_ok sh (stage_04_commands self) (world (self\<lparr>world := w0\<rparr>)) = Some w1"
      by simp
    from run_commands_all_ok [where self = "self\<lparr>world := w0\<rparr>", OF this] eq show
      "stage_04_push_to_dockerhub sh self = (Inr True, self\<lparr>world := w1\<rparr>)"
      by simp
  qed
  have c: "stage_04_commands self = pre @ cmd # post \<longrightarrow>
         commands_ok sh pre w0 = Some w1 \<longrightarrow>
         sh cmd w1 = (Inl (CalledProcessError out' err' msg'), w2) \<longrightarrow>
           stage_04_push_to_dockerhub sh self = (Inr False, self\<lparr>world := w2\<rparr>)"
  proof (intro impI)
    assume split: "stage_04_commands self = pre @ cmd # post"
      and pre: "commands_ok sh pre w0 = Some w1"
      and cmd: "sh cmd w1 = (Inl (CalledProcessError out' err' msg'), w2)"
    from pre have p: "commands_ok sh pre (world (self\<lparr>world := w0\<rparr>)) = Some w1"
      by simp
    from cmd have "sh cmd (world (self\<lparr>world := w1\<rparr>)) =
        (Inl (CalledProcessError out' err' msg'), w2)"
      by simp
    from run_cmd_failed [where sh = sh and cmd = cmd and self = "self\<lparr>world := w1\<rparr>", OF this]
    obtain o1 e1 where
      "run_cmd sh cmd (self\<lparr>world := w1\<rparr>) = (Inr (False, o1, e1), self\<lparr>world := w2\<rparr>)"
      by auto
    then have "run_cmd sh cmd (self\<lparr>world := w0, world := w1\<rparr>) =
        (Inr (False, o1, e1), self\<lparr>world := w2\<rparr>)"
      by simp
    from run_commands_stops [where self = "self\<lparr>world := w0\<rparr>", OF p this] eq split show
      "stage_04_push_to_dockerhub sh self = (Inr False, self\<lparr>world := w2\<rparr>)"
      by simp
  qed
  have d: "stage_04_commands self = pre @ cmd # post \<longrightarrow>
         commands_ok sh pre w0 = Some w1 \<longrightarrow>
         sh cmd w1 = (Inl e, w2) \<longrightarrow>
         (\<forall>out err msg. e \<noteq> CalledProcessError out err msg) \<longrightarrow>
           stage_04_push_to_dockerhub sh self = (Inl e, self\<lparr>world := w2\<rparr>)"
  proof (intro impI)
    assume split: "stage_04_commands self = pre @ cmd # post"
      and pre: "commands_ok sh pre w0 = Some w1"
      and cmd: "sh cmd w1 = (Inl e, w2)"
      and other: "\<forall>out err msg. e \<noteq> CalledProcessError out err msg"
    from pre have p: "commands_ok sh pre (world (self\<lparr>world := w0\<rparr>)) = Some w1"
      by simp
    from cmd have "sh cmd (world (self\<lparr>world := w1\<rparr>)) = (Inl e, w2)"
      by simp
    from run_cmd_raises [where sh = sh and cmd = cmd and self = "self\<lparr>world := w1\<rparr>",
        OF this other]
    have
      "run_cmd sh cmd (self\<lparr>world := w0, world := w1\<rparr>) = (Inl e, self\<lparr>world := w2\<rparr>)"
      by simp
    from run_commands_raises [where self = "self\<lparr>world := w0\<rparr>", OF p this] eq split show
      "stage_04_push_to_dockerhub sh self = (Inl e, self\<lparr>world := w2\<rparr>)"
      by simp
  qed
  from a b c d show ?thesis by (intro conjI)
qed

theorem stage_04_ignores_login_witness:
  "login_fails docker_login (world (updater [] ''1.2.0'')) =
     (Inl (CalledProcessError (Some []) (Some ''Error: Cannot perform an interactive login'')
             ''Command returned non-zero exit status 1.''), [docker_login]) \<and>
   commands_ok login_fails (stage_04_commands (updater [] ''1.2.0'')) [docker_login] =
     Some [[''docker'', ''login'', ''--username'', ''faddah''],
         [''docker'', ''tag'', ''code-canvas-astro-app:v1.2.0'',
          ''faddah/code-canvas-astro-app:v1.2.0''],
         [''docker'', ''tag'', ''code-canvas-astro-app:v1.2.0'',
          ''faddah/code-canvas-astro-app:latest''],
         [''docker'', ''push'', ''faddah/code-canvas-astro-app:v1.2.0''],
         [''docker'', ''push'', ''faddah/code-canvas-astro-app:latest''],
         [''docker'', ''tag'', ''code-canvas-astro-db-init:v1.2.0'',
          ''faddah/code-canvas-astro-db-init:v1.2.0''],
         [''docker'', ''tag'', ''code-canvas-astro-db-init:v1.2.0'',
          ''faddah/code-canvas-astro-db-init:latest''],
         [''docker'', ''push'', ''faddah/code-canvas-astro-db-init:v1.2.0''],
         [''docker'', ''push'', ''faddah/code-canvas-astro-db-init:latest'']] \<and>
   stage_04_push_to_dockerhub login_fails (updater [] ''1.2.0'') =
     (Inr True, updater [] ''1.2.0''\<lparr>world := [[''docker'', ''login'', ''--username'', ''faddah''],
         [''docker'', ''tag'', ''code-canvas-astro-app:v1.2.0'',
          ''faddah/code-canvas-astro-app:v1.2.0''],
         [''docker'', ''tag'', ''code-canvas-astro-app:v1.2.0'',
          ''faddah/code-canvas-astro-app:latest''],
         [''docker'', ''push'', ''faddah/code-canvas-astro-app:v1.2.0''],
         [''docker'', ''push'', ''faddah/code-canvas-astro-app:latest''],
         [''docker'', ''tag'', ''code-canvas-astro-db-init:v1.2.0'',
          ''faddah/code-canvas-astro-db-init:v1.2.0''],
         [''docker'', ''tag'', ''code-canvas-astro-db-init:v1.2.0'',
          ''faddah/code-canvas-astro-db-init:latest''],
         [''docker'', ''push'', ''faddah/code-canvas-astro-db-init:v1.2.0''],
         [''docker'', ''push'', ''faddah/code-canvas-astro-db-init:latest'']]\<rparr>) \<and>
   push_raises (CalledProcessError (Some []) (Some ''denied: requested access to the resource is denied'')
             ''Command returned non-zero exit status 1.'') docker_login (world (updater [] ''1.2.0'')) =
     (Inl (CalledProcessError (Some []) (Some ''Error: Cannot perform an interactive login'')
             ''Command returned non-zero exit status 1.''), [docker_login]) \<and>
   stage_04_commands (updater [] ''1.2.0'') =
     [[''docker'', ''tag'', ''code-canvas-astro-app:v1.2.0'',
          ''faddah/code-canvas-astro-app:v1.2.0''],
         [''docker'', ''tag'', ''code-canvas-astro-app:v1.2.0'',
          ''faddah/code-canvas-astro-app:latest'']] @ [''docker'', ''push'', ''faddah/code-canvas-astro-app:v1.2.0''] # [[''docker'', ''push'', ''faddah/code-canvas-astro-app:latest''],
         [''docker'', ''tag'', ''code-canvas-astro-db-init:v1.2.0'',
          ''faddah/code-canvas-astro-db-init:v1.2.0''],
         [''docker'', ''tag'', ''code-canvas-astro-db-init:v1.2.0'',
          ''faddah/code-canvas-astro-db-init:latest''],
         [''docker'', ''push'', ''faddah/code-canvas-astro-db-init:v1.2.0''],
         [''docker'', ''push'', ''faddah/code-canvas-astro-db-init:latest'']] \<and>
   commands_ok (push_raises (CalledProcessError (Some []) (Some ''denied: requested access to the resource is denied'')
             ''Command returned non-zero exit status 1.'')) [[''docker'', ''tag'', ''code-canvas-astro-app:v1.2.0'',
          ''faddah/code-canvas-astro-app:v1.2.0''],
         [''docker'', ''tag'', ''code-canvas-astro-app:v1.2.0'',
          ''faddah/code-canvas-astro-app:latest'']] [docker_login] =
     Some [[''docker'', ''login'', ''--username'', ''faddah''],
         [''docker'', ''tag'', ''code-canvas-astro-app:v1.2.0'',
          ''faddah/code-canvas-astro-app:v1.2.0''],
         [''docker'', ''tag'', ''code-canvas-astro-app:v1.2.0'',
          ''faddah/code-canvas-astro-app:latest'']] \<and>
   push_raises (CalledProcessError (Some []) (Some ''denied: requested access to the resource is denied'')
             ''Command returned non-zero exit status 1.'') [''docker'', ''push'', ''faddah/code-canvas-astro-app:v1.2.0''] [[''docker'', ''login'', ''--username'', ''faddah''],
         [''docker'', ''tag'', ''code-canvas-astro-app:v1.2.0'',
          ''faddah/code-canvas-astro-app:v1.2.0''],
         [''docker'', ''tag'', ''code-canvas-astro-app:v1.2.0'',
          ''faddah/code-canvas-astro-app:latest'']] =
     (Inl (CalledProcessError (Some []) (Some ''denied: requested access to the resource is denied'')
             ''Command returned non-zero exit status 1.''), [[''docker'', ''login'', ''--username'', ''faddah''],
         [''docker'', ''tag'', ''code-canvas-astro-app:v1.2.0'',
          ''faddah/code-canvas-astro-app:v1.2.0''],
         [''docker'', ''tag'', ''code-canvas-astro-app:v1.2.0'',
          ''faddah/code-canvas-astro-app:latest''],
         [''docker'', ''push'', ''faddah/code-canvas-astro-app:v1.2.0'']]) \<and>
   stage_04_push_to_dockerhub (push_raises (CalledProcessError (Some []) (Some ''denied: requested access to the resource is denied'')
             ''Command returned non-zero exit status 1.'')) (updater [] ''1.2.0'') =
     (Inr False, updater [] ''1.2.0''\<lparr>world := [[''docker'', ''login'', ''--username'', ''faddah''],
         [''docker'', ''tag'', ''code-canvas-astro-app:v1.2.0'',
          ''faddah/code-canvas-astro-app:v1.2.0''],
         [''docker'', ''tag'', ''code-canvas-astro-app:v1.2.0'',
          ''faddah/code-canvas-astro-app:latest''],
         [''docker'', ''push'', ''faddah/code-canvas-astro-app:v1.2.0'']]\<rparr>) \<and>
   push_raises (UnicodeDecodeError ''utf-8 codec cannot decode byte 0xff in position 0'') docker_login (world (updater [] ''1.2.0'')) =
     (Inl (CalledProcessError (Some []) (Some ''Error: Cannot perform an interactive login'')
             ''Command returned non-zero exit status 1.''), [docker_login]) \<and>
   commands_ok (push_raises (UnicodeDecodeError ''utf-8 codec cannot decode byte 0xff in position 0'')) [[''docker'', ''tag'', ''code-canvas-astro-app:v1.2.0'',
          ''faddah/code-canvas-astro-app:v1.2.0''],
         [''docker'', ''tag'', ''code-canvas-astro-app:v1.2.0'',
          ''faddah/code-canvas-astro-app:latest'']] [docker_login] =
     Some [[''docker'', ''login'', ''--username'', ''faddah''],
         [''docker'', ''tag'', ''code-canvas-astro-app:v1.2.0'',
          ''faddah/code-canvas-astro-app:v1.2.0''],
         [''docker'', ''tag'', ''code-canvas-astro-app:v1.2.0'',
          ''faddah/code-canvas-astro-app:latest'']] \<and>
   push_raises (UnicodeDecodeError ''utf-8 codec cannot decode byte 0xff in position 0'') [''docker'', ''push'', ''faddah/code-canvas-astro-app:v1.2.0''] [[''docker'', ''login'', ''--username'', ''faddah''],
         [''docker'', ''tag'', ''code-canvas-astro-app:v1.2.0'',
          ''faddah/code-canvas-astro-app:v1.2.0''],
         [''docker'', ''tag'', ''code-canvas-astro-app:v1.2.0'',
          ''faddah/code-canvas-astro-app:latest'']] =
     (Inl (UnicodeDecodeError ''utf-8 codec cannot decode byte 0xff in position 0''), [[''docker'', ''login'', ''--username'', ''faddah''],
         [''docker'', ''tag'', ''code-canvas-astro-app:v1.2.0'',
          ''faddah/code-canvas-astro-app:v1.2.0''],
         [''docker'', ''tag'', ''code-canvas-astro-app:v1.2.0'',
          ''faddah/code-canvas-astro-app:latest''],
         [''docker'', ''push'', ''faddah/code-canvas-astro-app:v1.2.0'']]) \<and>
   stage_04_push_to_dockerhub (push_raises (UnicodeDecodeError ''utf-8 codec cannot decode byte 0xff in position 0'')) (updater [] ''1.2.0'') =
     (Inl (UnicodeDecodeError ''utf-8 codec cannot decode byte 0xff in position 0''), updater [] ''1.2.0''\<lparr>world := [[''docker'', ''login'', ''--username'', ''faddah''],
         [''docker'', ''tag'', ''code-canvas-astro-app:v1.2.0'',
          ''faddah/code-canvas-astro-app:v1.2.0''],
         [''docker'', ''tag'', ''code-canvas-astro-app:v1.2.0'',
          ''faddah/code-canvas-astro-app:latest''],
         [''docker'', ''push'', ''faddah/code-canvas-astro-app:v1.2.0'']]\<rparr>)"
proof -
  note defs = login_fails_def push_raises_def updater_def docker_login_def
    stage_04_commands_def images_to_push_def DOCKER_APP_IMAGE_def DOCKER_DB_INIT_IMAGE_def
    DOCKERHUB_USERNAME_def
  let ?self = "updater ([] :: string list list) ''1.2.0''"
  have h1: "login_fails docker_login (world (updater [] ''1.2.0'')) =
     (Inl (CalledProcessError (Some []) (Some ''Error: Cannot perform an interactive login'')
             ''Command returned non-zero exit status 1.''), [docker_login])"
    by (simp add: defs)
  have k1: "commands_ok login_fails (stage_04_commands (updater [] ''1.2.0'')) [docker_login] =
     Some [[''docker'', ''login'', ''--username'', ''faddah''],
         [''docker'', ''tag'', ''code-canvas-astro-app:v1.2.0'',
          ''faddah/code-canvas-astro-app:v1.2.0''],
         [''docker'', ''tag'', ''code-canvas-astro-app:v1.2.0'',
          ''faddah/code-canvas-astro-app:latest''],
         [''docker'', ''push'', ''faddah/code-canvas-astro-app:v1.2.0''],
         [''docker'', ''push'', ''faddah/code-canvas-astro-app:latest''],
         [''docker'', ''tag'', ''code-canvas-astro-db-init:v1.2.0'',
          ''faddah/code-canvas-astro-db-init:v1.2.0''],
         [''docker'', ''tag'', ''code-canvas-astro-db-init:v1.2.0'',
          ''faddah/code-canvas-astro-db-init:latest''],
         [''docker'', ''push'', ''faddah/code-canvas-astro-db-init:v1.2.0''],
         [''docker'', ''push'', ''faddah/code-canvas-astro-db-init:latest'']]"
    by (simp add: defs)
  have h2: "push_raises (CalledProcessError (Some []) (Some ''denied: requested access to the resource is denied'')
             ''Command returned non-zero exit status 1.'') docker_login (world (updater [] ''1.2.0'')) =
     (Inl (CalledProcessError (Some []) (Some ''Error: Cannot perform an interactive login'')
             ''Command returned non-zero exit status 1.''), [docker_login])"
    by (simp add: defs)
  have sp: "stage_04_commands (updater [] ''1.2.0'') =
     [[''docker'', ''tag'', ''code-canvas-astro-app:v1.2.0'',
          ''faddah/code-canvas-astro-app:v1.2.0''],
         [''docker'', ''tag'', ''code-canvas-astro-app:v1.2.0'',
          ''faddah/code-canvas-astro-app:latest'']] @ [''docker'', ''push'', ''faddah/code-canvas-astro-app:v1.2.0''] # [[''docker'', ''push'', ''faddah/code-canvas-astro-app:latest''],
         [''docker'', ''tag'', ''code-canvas-astro-db-init:v1.2.0'',
          ''faddah/code-canvas-astro-db-init:v1.2.0''],
         [''docker'', ''tag'', ''code-canvas-astro-db-init:v1.2.0'',
          ''faddah/code-canvas-astro-db-init:latest''],
         [''docker'', ''push'', ''faddah/code-canvas-astro-db-init:v1.2.0''],
         [''docker'', ''push'', ''faddah/code-canvas-astro-db-init:latest'']]"
    by (simp add: defs)
  have k2: "commands_ok (push_raises (CalledProcessError (Some []) (Some ''denied: requested access to the resource is denied'')
             ''Command returned non-zero exit status 1.'')) [[''docker'', ''tag'', ''code-canvas-astro-app:v1.2.0'',
          ''faddah/code-canvas-astro-app:v1.2.0''],
         [''docker'', ''tag'', ''code-canvas-astro-app:v1.2.0'',
          ''faddah/code-canvas-astro-app:latest'']] [docker_login] =
     Some [[''docker'', ''login'', ''--username'', ''faddah''],
         [''docker'', ''tag'', ''code-canvas-astro-app:v1.2.0'',
          ''faddah/code-canvas-astro-app:v1.2.0''],
         [''docker'', ''tag'', ''code-canvas-astro-app:v1.2.0'',
          ''faddah/code-canvas-astro-app:latest'']]"
    by (simp add: defs)
  have f2: "push_raises (CalledProcessError (Some []) (Some ''denied: requested access to the resource is denied'')
             ''Command returned non-zero exit status 1.'') [''docker'', ''push'', ''faddah/code-canvas-astro-app:v1.2.0''] [[''docker'', ''login'', ''--username'', ''faddah''],
         [''docker'', ''tag'', ''code-canvas-astro-app:v1.2.0'',
          ''faddah/code-canvas-astro-app:v1.2.0''],
         [''docker'', ''tag'', ''code-canvas-astro-app:v1.2.0'',
          ''faddah/code-canvas-astro-app:latest'']] =
     (Inl (CalledProcessError (Some []) (Some ''denied: requested access to the resource is denied'')
             ''Command returned non-zero exit status 1.''), [[''docker'', ''login'', ''--username'', ''faddah''],
         [''docker'', ''tag'', ''code-canvas-astro-app:v1.2.0'',
          ''faddah/code-canvas-astro-app:v1.2.0''],
         [''docker'', ''tag'', ''code-canvas-astro-app:v1.2.0'',
          ''faddah/code-canvas-astro-app:latest''],
         [''docker'', ''push'', ''faddah/code-canvas-astro-app:v1.2.0'']])"
    by (simp add: defs)
  have h3: "push_raises (UnicodeDecodeError ''utf-8 codec cannot decode byte 0xff in position 0'') docker_login (world (updater [] ''1.2.0'')) =
     (Inl (CalledProcessError (Some []) (Some ''Error: Cannot perform an interactive login'')
             ''Command returned non-zero exit status 1.''), [docker_login])"
    by (simp add: defs)
  have k3: "commands_ok (push_raises (UnicodeDecodeError ''utf-8 codec cannot decode byte 0xff in position 0'')) [[''docker'', ''tag'', ''code-canvas-astro-app:v1.2.0'',
          ''faddah/code-canvas-astro-app:v1.2.0''],
         [''docker'', ''tag'', ''code-canvas-astro-app:v1.2.0'',
          ''faddah/code-canvas-astro-app:latest'']] [docker_login] =
     Some [[''docker'', ''login'', ''--username'', ''faddah''],
         [''docker'', ''tag'', ''code-canvas-astro-app:v1.2.0'',
          ''faddah/code-canvas-astro-app:v1.2.0''],
         [''docker'', ''tag'', ''code-canvas-astro-app:v1.2.0'',
          ''faddah/code-canvas-astro-app:latest'']]"
    by (simp add: defs)
  have f3: "push_raises (UnicodeDecodeError ''utf-8 codec cannot decode byte 0xff in position 0'') [''docker'', ''push'', ''faddah/code-canvas-astro-app:v1.2.0''] [[''docker'', ''login'', ''--username'', ''faddah''],
         [''docker'', ''tag'', ''code-canvas-astro-app:v1.2.0'',
          ''faddah/code-canvas-astro-app:v1.2.0''],
         [''docker'', ''tag'', ''code-canvas-astro-app:v1.2.0'',
          ''faddah/code-canvas-astro-app:latest'']] =
     (Inl (UnicodeDecodeError ''utf-8 codec cannot decode byte 0xff in position 0''), [[''docker'', ''login'', ''--username'', ''faddah''],
         [''docker'', ''tag'', ''code-canvas-astro-app:v1.2.0'',
          ''faddah/code-canvas-astro-app:v1.2.0''],
         [''docker'', ''tag'', ''code-canvas-astro-app:v1.2.0'',
          ''faddah/code-canvas-astro-app:latest''],
         [''docker'', ''push'', ''faddah/code-canvas-astro-app:v1.2.0'']])"
    by (simp add: defs)
  have n3: "\<forall>out err msg. UnicodeDecodeError ''utf-8 codec cannot decode byte 0xff in position 0'' \<noteq>
      CalledProcessError out err msg"
    by simp
  note T1 = stage_04_ignores_login [where sh = login_fails and self = ?self
      and ?w0.0 = "[docker_login]", OF h1]
  note T2 = stage_04_ignores_login [where sh = "push_raises (CalledProcessError (Some []) (Some ''denied: requested access to the resource is denied'')
             ''Command returned non-zero exit status 1.'')" and self = ?self
      and ?w0.0 = "[docker_login]", OF h2]
  note T3 = stage_04_ignores_login [where sh = "push_raises (UnicodeDecodeError ''utf-8 codec cannot decode byte 0xff in position 0'')" and self = ?self
      and ?w0.0 = "[docker_login]", OF h3]
  have c1: "stage_04_push_to_dockerhub login_fails (updater [] ''1.2.0'') =
     (Inr True, updater [] ''1.2.0''\<lparr>world := [[''docker'', ''login'', ''--username'', ''faddah''],
         [''docker'', ''tag'', ''code-canvas-astro-app:v1.2.0'',
          ''faddah/code-canvas-astro-app:v1.2.0''],
         [''docker'', ''tag'', ''code-canvas-astro-app:v1.2.0'',
          ''faddah/code-canvas-astro-app:latest''],
         [''docker'', ''push'', ''faddah/code-canvas-astro-app:v1.2.0''],
         [''docker'', ''push'', ''faddah/code-canvas-astro-app:latest''],
         [''docker'', ''tag'', ''code-canvas-astro-db-init:v1.2.0'',
          ''faddah/code-canvas-astro-db-init:v1.2.0''],
         [''docker'', ''tag'', ''code-canvas-astro-db-init:v1.2.0'',
          ''faddah/code-canvas-astro-db-init:latest''],
         [''docker'', ''push'', ''faddah/code-canvas-astro-db-init:v1.2.0''],
         [''docker'', ''push'', ''faddah/code-canvas-astro-db-init:latest'']]\<rparr>)"
    using T1 k1 by blast
  have c2: "stage_04_push_to_dockerhub (push_raises (CalledProcessError (Some []) (Some ''denied: requested access to the resource is denied'')
             ''Command returned non-zero exit status 1.'')) (updater [] ''1.2.0'') =
     (Inr False, updater [] ''1.2.0''\<lparr>world := [[''docker'', ''login'', ''--username'', ''faddah''],
         [''docker'', ''tag'', ''code-canvas-astro-app:v1.2.0'',
          ''faddah/code-canvas-astro-app:v1.2.0''],
         [''docker'', ''tag'', ''code-canvas-astro-app:v1.2.0'',
          ''faddah/code-canvas-astro-app:latest''],
         [''docker'', ''push'', ''faddah/code-canvas-astro-app:v1.2.0'']]\<rparr>)"
    using T2 sp k2 f2 by blast
  have c3: "stage_04_push_to_dockerhub (push_raises (UnicodeDecodeError ''utf-8 codec cannot decode byte 0xff in position 0'')) (updater [] ''1.2.0'') =
     (Inl (UnicodeDecodeError ''utf-8 codec cannot decode byte 0xff in position 0''), updater [] ''1.2.0''\<lparr>world := [[''docker'', ''login'', ''--username'', ''faddah''],
         [''docker'', ''tag'', ''code-canvas-astro-app:v1.2.0'',
          ''faddah/code-canvas-astro-app:v1.2.0''],
         [''docker'', ''tag'', ''code-canvas-astro-app:v1.2.0'',
          ''faddah/code-canvas-astro-app:latest''],
         [''docker'', ''push'', ''faddah/code-canvas-astro-app:v1.2.0'']]\<rparr>)"
    using T3 sp k3 f3 n3 by blast
  show ?thesis
    by (intro conjI h1 k1 c1 h2 sp k2 f2 c2 h3 k3 f3 c3)
qed

section \<open>Properties of the health checks\<close>


lemma retry_loop_succeeds:
  assumes fails: "\<And>j. j < k \<Longrightarrow>
      body (s\<lparr>world := ((\<lambda>w. sleep d (p w)) ^^ j) (world s)\<rparr>) =
        (Inr False, s\<lparr>world := p (((\<lambda>w. sleep d (p w)) ^^ j) (world s))\<rparr>)"
    and ok: "body (s\<lparr>world := ((\<lambda>w. sleep d (p w)) ^^ k) (world s)\<rparr>) =
        (Inr True, s\<lparr>world := p (((\<lambda>w. sleep d (p w)) ^^ k) (world s))\<rparr>)"
    and bound: "m + k \<le> N"
  shows "retry_loop body sleep N d [m..<N + 1] s =
           (Inr True, s\<lparr>world := p (((\<lambda>w. sleep d (p w)) ^^ k) (world s))\<rparr>)"
  using fails ok bound
proof (induction k arbitrary: m s)
  case 0
  have up: "[m..<N + 1] = m # [Suc m..<N + 1]"
    using 0 by (simp add: upt_conv_Cons)
  have "s\<lparr>world := world s\<rparr> = s" by simp
  with 0(2) have "body s = (Inr True, s\<lparr>world := p (world s)\<rparr>)"
    by simp
  then show ?case
    by (subst up) (simp add: io_defs del: upt_Suc)
next
  case (Suc k)
  let ?f = "\<lambda>w. sleep d (p w)"
  let ?s1 = "s\<lparr>world := sleep d (p (world s))\<rparr>"
  have lt: "m < N" using Suc.prems(3) by simp
  have up: "[m..<N + 1] = m # [Suc m..<N + 1]"
    using lt by (simp add: upt_conv_Cons)
  have "body (s\<lparr>world := (?f ^^ 0) (world s)\<rparr>) =
      (Inr False, s\<lparr>world := p ((?f ^^ 0) (world s))\<rparr>)"
    by (rule Suc.prems(1)) simp
  then have first: "body s = (Inr False, s\<lparr>world := p (world s)\<rparr>)"
    by simp
  have step: "retry_loop body sleep N d [m..<N + 1] s =
      retry_loop body sleep N d [Suc m..<N + 1] ?s1"
    using lt by (subst up) (simp add: first io_defs time_sleep_def del: upt_Suc)
  have shift: "(?f ^^ j) (world ?s1) = (?f ^^ Suc j) (world s)" for j
    by (simp only: funpow_Suc_right o_apply) simp
  have scheme: "?s1\<lparr>world := x\<rparr> = s\<lparr>world := x\<rparr>" for x
    by simp
  have fails': "body (?s1\<lparr>world := (?f ^^ j) (world ?s1)\<rparr>) =
      (Inr False, ?s1\<lparr>world := p ((?f ^^ j) (world ?s1))\<rparr>)" if "j < k" for j
    unfolding shift scheme using that by (intro Suc.prems(1)) simp
  have ok': "body (?s1\<lparr>world := (?f ^^ k) (world ?s1)\<rparr>) =
      (Inr True, ?s1\<lparr>world := p ((?f ^^ k) (world ?s1))\<rparr>)"
    unfolding shift scheme by (rule Suc.prems(2))
  have "Suc m + k \<le> N" using Suc.prems(3) by simp
  from Suc.IH [of ?s1 "Suc m", OF fails' ok' this]
  have "retry_loop body sleep N d [Suc m..<N + 1] ?s1 =
      (Inr True, ?s1\<lparr>world := p ((?f ^^ k) (world ?s1))\<rparr>)"
    by simp
  then show ?case
    unfolding step shift scheme .
qed

lemma verify_attempt_verdict:
  "verify_verdict (fst (get (''https://'' @ domain) (world s))) = Some b \<Longrightarrow>
   verify_attempt get domain s =
     (Inr b, s\<lparr>world := snd (get (''https://'' @ domain) (world s))\<rparr>)"
proof -
  assume v: "verify_verdict (fst (get (''https://'' @ domain) (world s))) = Some b"
  obtain r w1 where g: "get (''https://'' @ domain) (world s) = (r, w1)"
    by (cases "get (''https://'' @ domain) (world s)")
  show ?thesis
  proof (cases r)
    case (Inl e)
    with v g show ?thesis
      by (cases e) (auto simp: verify_attempt_def http_get_def io_defs)
  next
    case (Inr status)
    with v g show ?thesis
      by (auto simp: verify_attempt_def http_get_def io_defs)
  qed
qed

lemma health_attempt_verdict:
  "health_verdict (fst (urlopen url (world s))) = Some b \<Longrightarrow>
   health_attempt urlopen url s = (Inr b, s\<lparr>world := snd (urlopen url (world s))\<rparr>)"
proof -
  assume v: "health_verdict (fst (urlopen url (world s))) = Some b"
  obtain r w1 where g: "urlopen url (world s) = (r, w1)"
    by (cases "urlopen url (world s)")
  show ?thesis
  proof (cases r)
    case (Inl e)
    with v g show ?thesis
      by (cases e) (auto simp: health_attempt_def http_get_def io_defs)
  next
    case (Inr status)
    with v g show ?thesis
      by (auto simp: health_attempt_def http_get_def io_defs)
  qed
qed


lemma health_loop_succeeds:
  assumes "k < 5"
    and "\<forall>j<k. health_verdict
           (fst (urlopen url (after_retries urlopen sleep url delay j (world self)))) = Some False"
    and "health_verdict
           (fst (urlopen url (after_retries urlopen sleep url delay k (world self)))) = Some True"
  shows "retry_loop (health_attempt urlopen url) sleep 5 delay [1..<5 + 1] self =
     (Inr True, self\<lparr>world := after_requests urlopen sleep url delay (k + 1) (world self)\<rparr>)"
proof -
  let ?f = "\<lambda>w. sleep delay (snd (urlopen url w))"
  have fails: "health_attempt urlopen url (self\<lparr>world := (?f ^^ j) (world self)\<rparr>) =
      (Inr False, self\<lparr>world := snd (urlopen url ((?f ^^ j) (world self)))\<rparr>)"
    if "j < k" for j
    using assms(2) that
      health_attempt_verdict [of urlopen url "self\<lparr>world := (?f ^^ j) (world self)\<rparr>" False]
    by (simp add: after_retries_def)
  have ok: "health_attempt urlopen url (self\<lparr>world := (?f ^^ k) (world self)\<rparr>) =
      (Inr True, self\<lparr>world := snd (urlopen url ((?f ^^ k) (world self)))\<rparr>)"
    using assms(3)
      health_attempt_verdict [of urlopen url "self\<lparr>world := (?f ^^ k) (world self)\<rparr>" True]
    by (simp add: after_retries_def)
  have "1 + k \<le> 5" using assms(1) by simp
  from retry_loop_succeeds [where body = "health_attempt urlopen url"
      and p = "\<lambda>w. snd (urlopen url w)" and sleep = sleep and d = delay and s = self
      and k = k and m = 1 and N = 5, OF fails ok this]
  show ?thesis
    by (simp add: after_requests_def)
qed

lemma verify_deployment_succeeds:
  assumes "k < N"
    and "\<forall>j<k. verify_verdict
           (fst (requests_get (''https://'' @ domain)
                  (after_retries requests_get sleep (''https://'' @ domain) delay j (world obj)))) =
           Some False"
    and "verify_verdict
           (fst (requests_get (''https://'' @ domain)
                  (after_retries requests_get sleep (''https://'' @ domain) delay k (world obj)))) =
           Some True"
  shows "verify_deployment requests_get sleep domain N delay obj =
     (Inr True,
      obj\<lparr>world :=
        after_requests requests_get sleep (''https://'' @ domain) delay (k + 1) (world obj)\<rparr>)"
proof -
  let ?url = "''https://'' @ domain"
  let ?f = "\<lambda>w. sleep delay (snd (requests_get ?url w))"
  have fails: "verify_attempt requests_get domain (obj\<lparr>world := (?f ^^ j) (world obj)\<rparr>) =
      (Inr False, obj\<lparr>world := snd (requests_get ?url ((?f ^^ j) (world obj)))\<rparr>)"
    if "j < k" for j
    using assms(2) that
      verify_attempt_verdict [of requests_get domain "obj\<lparr>world := (?f ^^ j) (world obj)\<rparr>" False]
    by (simp add: after_retries_def)
  have ok: "verify_attempt requests_get domain (obj\<lparr>world := (?f ^^ k) (world obj)\<rparr>) =
      (Inr True, obj\<lparr>world := snd (requests_get ?url ((?f ^^ k) (world obj)))\<rparr>)"
    using assms(3)
      verify_attempt_verdict [of requests_get domain "obj\<lparr>world := (?f ^^ k) (world obj)\<rparr>" True]
    by (simp add: after_retries_def)
  have "1 + k \<le> N" using assms(1) by simp
  from retry_loop_succeeds [where body = "verify_attempt requests_get domain"
      and p = "\<lambda>w. snd (requests_get ?url w)" and sleep = sleep and d = delay and s = obj
      and k = k and m = 1 and N = N, OF fails ok this]
  show ?thesis
    by (simp add: verify_deployment_def after_requests_def)
qed







text \<open>
  Claim C4, as stated, fails for \<open>verify_deployment\<close>: a response with status 403 is
  not a success there. With a server that always answers 403 all five attempts are
  used and the verifier returns \<open>False\<close>.
\<close>

theorem verify_deployment_rejects_403:
  "verify_deployment (answering (Inr 403)) log_sleep ''pyrepl.dev'' 5 30 \<lparr>world = []\<rparr> =
     (Inr False,
      \<lparr>world =
         [Get ''https://pyrepl.dev'', Sleep 30, Get ''https://pyrepl.dev'', Sleep 30,
          Get ''https://pyrepl.dev'', Sleep 30, Get ''https://pyrepl.dev'', Sleep 30,
          Get ''https://pyrepl.dev'']\<rparr>)"
  by (simp add: verify_deployment_def verify_attempt_def http_get_def io_defs time_sleep_def
        answering_def log_sleep_def upt_rec)

text \<open>
  Claim C4, amended. In stages 11 and 12 of the update pipeline an attempt succeeds on
  a response with status 200, 301 or 302 and on an \<open>HTTPError\<close> with code 400, 403, 404
  or 405; every other outcome (another status, an \<open>HTTPError\<close> with another code such
  as a 5xx, a \<open>URLError\<close>, any other exception) is transient. In \<open>verify_deployment\<close>
  only the status 200 succeeds; every other status (403 included) and a
  \<open>RequestException\<close> are transient. When the first \<open>k\<close> attempts are transient and
  attempt \<open>k + 1\<close> succeeds, with \<open>k\<close> below the number of attempts, the verifier
  sleeps after each transient attempt, makes exactly \<open>k + 1\<close> requests and returns
  \<open>True\<close>.
\<close>

theorem health_check_policy:
  "(k < 5 \<longrightarrow>
    (\<forall>j<k. health_verdict
       (fst (urlopen LAMBDA_FUNCTION_URL
              (after_retries urlopen sleep LAMBDA_FUNCTION_URL 15 j (world self)))) = Some False) \<longrightarrow>
    health_verdict
       (fst (urlopen LAMBDA_FUNCTION_URL
              (after_retries urlopen sleep LAMBDA_FUNCTION_URL 15 k (world self)))) = Some True \<longrightarrow>
      stage_11_health_check_lambda_url urlopen sleep self =
        (Inr True,
         self\<lparr>world :=
           after_requests urlopen sleep LAMBDA_FUNCTION_URL 15 (k + 1) (world self)\<rparr>)) \<and>
   (k < 5 \<longrightarrow>
    (\<forall>j<k. health_verdict
       (fst (urlopen (''https://'' @ ROUTE53_DOMAIN @ ''/'')
              (after_retries urlopen sleep (''https://'' @ ROUTE53_DOMAIN @ ''/'') 20 j (world self)))) = Some False) \<longrightarrow>
    health_verdict
       (fst (urlopen (''https://'' @ ROUTE53_DOMAIN @ ''/'')
              (after_retries urlopen sleep (''https://'' @ ROUTE53_DOMAIN @ ''/'') 20 k (world self)))) = Some True \<longrightarrow>
      stage_12_health_check_public_domain urlopen sleep self =
        (Inr True,
         self\<lparr>world :=
           after_requests urlopen sleep (''https://'' @ ROUTE53_DOMAIN @ ''/'') 20 (k + 1) (world self)\<rparr>)) \<and>
   (k < N \<longrightarrow>
    (\<forall>j<k. verify_verdict
       (fst (requests_get (''https://'' @ domain)
              (after_retries requests_get sleep (''https://'' @ domain) delay j (world obj)))) =
       Some False) \<longrightarrow>
    verify_verdict
       (fst (requests_get (''https://'' @ domain)
              (after_retries requests_get sleep (''https://'' @ domain) delay k (world obj)))) =
       Some True \<longrightarrow>
      verify_deployment requests_get sleep domain N delay obj =
        (Inr True,
         obj\<lparr>world :=
           after_requests requests_get sleep (''https://'' @ domain) delay (k + 1)
             (world obj)\<rparr>)) \<and>
   (health_verdict r = Some True \<longleftrightarrow>
      (\<exists>status. r = Inr status \<and> status \<in> {200, 301, 302}) \<or>
      (\<exists>code reason. r = Inl (HTTPError code reason) \<and> code \<in> {400, 403, 404, 405})) \<and>
   (health_verdict r = Some False \<longleftrightarrow>
      (\<exists>status. r = Inr status \<and> status \<notin> {200, 301, 302}) \<or>
      (\<exists>code reason. r = Inl (HTTPError code reason) \<and> code \<notin> {400, 403, 404, 405}) \<or>
      (\<exists>e. r = Inl e \<and> (\<forall>code reason. e \<noteq> HTTPError code reason))) \<and>
   (verify_verdict r = Some True \<longleftrightarrow> r = Inr 200) \<and>
   (verify_verdict r = Some False \<longleftrightarrow>
      (\<exists>status. r = Inr status \<and> status \<noteq> 200) \<or>
      (\<exists>reason. r = Inl (RequestException reason)))"
proof -
  have a: "(k < 5 \<longrightarrow>
    (\<forall>j<k. health_verdict
       (fst (urlopen LAMBDA_FUNCTION_URL
              (after_retries urlopen sleep LAMBDA_FUNCTION_URL 15 j (world self)))) = Some False) \<longrightarrow>
    health_verdict
       (fst (urlopen LAMBDA_FUNCTION_URL
              (after_retries urlopen sleep LAMBDA_FUNCTION_URL 15 k (world self)))) = Some True \<longrightarrow>
      stage_11_health_check_lambda_url urlopen sleep self =
        (Inr True,
         self\<lparr>world :=
           after_requests urlopen sleep LAMBDA_FUNCTION_URL 15 (k + 1) (world self)\<rparr>))"
    unfolding stage_11_health_check_lambda_url_def
    by (intro impI health_loop_succeeds)
  have b: "(k < 5 \<longrightarrow>
    (\<forall>j<k. health_verdict
       (fst (urlopen (''https://'' @ ROUTE53_DOMAIN @ ''/'')
              (after_retries urlopen sleep (''https://'' @ ROUTE53_DOMAIN @ ''/'') 20 j (world self)))) = Some False) \<longrightarrow>
    health_verdict
       (fst (urlopen (''https://'' @ ROUTE53_DOMAIN @ ''/'')
              (after_retries urlopen sleep (''https://'' @ ROUTE53_DOMAIN @ ''/'') 20 k (world self)))) = Some True \<longrightarrow>
      stage_12_health_check_public_domain urlopen sleep self =
        (Inr True,
         self\<lparr>world :=
           after_requests urlopen sleep (''https://'' @ ROUTE53_DOMAIN @ ''/'') 20 (k + 1) (world self)\<rparr>))"
    unfolding stage_12_health_check_public_domain_def
    by (intro impI health_loop_succeeds)
  have c: "(k < N \<longrightarrow>
    (\<forall>j<k. verify_verdict
       (fst (requests_get (''https://'' @ domain)
              (after_retries requests_get sleep (''https://'' @ domain) delay j (world obj)))) =
       Some False) \<longrightarrow>
    verify_verdict
       (fst (requests_get (''https://'' @ domain)
              (after_retries requests_get sleep (''https://'' @ domain) delay k (world obj)))) =
       Some True \<longrightarrow>
      verify_deployment requests_get sleep domain N delay obj =
        (Inr True,
         obj\<lparr>world :=
           after_requests requests_get sleep (''https://'' @ domain) delay (k + 1)
             (world obj)\<rparr>))"
    by (intro impI verify_deployment_succeeds)
  have d: "health_verdict r = Some True \<longleftrightarrow>
      (\<exists>status. r = Inr status \<and> status \<in> {200, 301, 302}) \<or>
      (\<exists>code reason. r = Inl (HTTPError code reason) \<and> code \<in> {400, 403, 404, 405})"
    by (cases r rule: health_verdict.cases) auto
  have e: "health_verdict r = Some False \<longleftrightarrow>
      (\<exists>status. r = Inr status \<and> status \<notin> {200, 301, 302}) \<or>
      (\<exists>code reason. r = Inl (HTTPError code reason) \<and> code \<notin> {400, 403, 404, 405}) \<or>
      (\<exists>e. r = Inl e \<and> (\<forall>code reason. e \<noteq> HTTPError code reason))"
    by (cases r rule: health_verdict.cases) auto
  have f: "verify_verdict r = Some True \<longleftrightarrow> r = Inr 200"
    by (cases r rule: verify_verdict.cases) auto
  have g: "verify_verdict r = Some False \<longleftrightarrow>
      (\<exists>status. r = Inr status \<and> status \<noteq> 200) \<or>
      (\<exists>reason. r = Inl (RequestException reason))"
    by (cases r rule: verify_verdict.cases) auto
  from a b c d e f g show ?thesis by (intro conjI)
qed

theorem health_check_policy_witness:
  "(1::nat) < 5 \<and>
   health_verdict
     (fst ((recovering 1 (Inl (HTTPError 503 ''Service Unavailable''))
        (Inl (HTTPError 403 ''Forbidden''))) LAMBDA_FUNCTION_URL
            (after_retries (recovering 1 (Inl (HTTPError 503 ''Service Unavailable''))
        (Inl (HTTPError 403 ''Forbidden''))) log_sleep LAMBDA_FUNCTION_URL 15 0 (world log_updater)))) = Some False \<and>
   health_verdict
     (fst ((recovering 1 (Inl (HTTPError 503 ''Service Unavailable''))
        (Inl (HTTPError 403 ''Forbidden''))) LAMBDA_FUNCTION_URL
            (after_retries (recovering 1 (Inl (HTTPError 503 ''Service Unavailable''))
        (Inl (HTTPError 403 ''Forbidden''))) log_sleep LAMBDA_FUNCTION_URL 15 1 (world log_updater)))) = Some True \<and>
   stage_11_health_check_lambda_url (recovering 1 (Inl (HTTPError 503 ''Service Unavailable''))
        (Inl (HTTPError 403 ''Forbidden''))) log_sleep log_updater =
     (Inr True,
      log_updater\<lparr>world := [Get LAMBDA_FUNCTION_URL, Sleep 15, Get LAMBDA_FUNCTION_URL]\<rparr>) \<and>
   health_verdict
     (fst ((recovering 1 (Inl (URLError ''timed out'')) (Inr 200)) (''https://'' @ ROUTE53_DOMAIN @ ''/'')
            (after_retries (recovering 1 (Inl (URLError ''timed out'')) (Inr 200)) log_sleep (''https://'' @ ROUTE53_DOMAIN @ ''/'') 20 0 (world log_updater)))) = Some False \<and>
   health_verdict
     (fst ((recovering 1 (Inl (URLError ''timed out'')) (Inr 200)) (''https://'' @ ROUTE53_DOMAIN @ ''/'')
            (after_retries (recovering 1 (Inl (URLError ''timed out'')) (Inr 200)) log_sleep (''https://'' @ ROUTE53_DOMAIN @ ''/'') 20 1 (world log_updater)))) = Some True \<and>
   stage_12_health_check_public_domain (recovering 1 (Inl (URLError ''timed out'')) (Inr 200)) log_sleep log_updater =
     (Inr True,
      log_updater\<lparr>world := [Get ''https://pyrepl.dev/'', Sleep 20, Get ''https://pyrepl.dev/'']\<rparr>) \<and>
   verify_verdict
     (fst ((recovering 1 (Inl (RequestException ''connection refused'')) (Inr 200)) (''https://'' @ ''pyrepl.dev'')
            (after_retries (recovering 1 (Inl (RequestException ''connection refused'')) (Inr 200)) log_sleep (''https://'' @ ''pyrepl.dev'') 30 0 (world log_object)))) = Some False \<and>
   verify_verdict
     (fst ((recovering 1 (Inl (RequestException ''connection refused'')) (Inr 200)) (''https://'' @ ''pyrepl.dev'')
            (after_retries (recovering 1 (Inl (RequestException ''connection refused'')) (Inr 200)) log_sleep (''https://'' @ ''pyrepl.dev'') 30 1 (world log_object)))) = Some True \<and>
   verify_deployment (recovering 1 (Inl (RequestException ''connection refused'')) (Inr 200)) log_sleep ''pyrepl.dev'' 5 30 log_object =
     (Inr True,
      log_object\<lparr>world := [Get ''https://pyrepl.dev'', Sleep 30, Get ''https://pyrepl.dev'']\<rparr>)"
proof -
  note defs = after_retries_def after_requests_def recovering_def log_sleep_def
    log_updater_def log_object_def updater_def ROUTE53_DOMAIN_def
  have lt: "(1::nat) < 5" by simp
  have h11a: "health_verdict
     (fst ((recovering 1 (Inl (HTTPError 503 ''Service Unavailable''))
        (Inl (HTTPError 403 ''Forbidden''))) LAMBDA_FUNCTION_URL
            (after_retries (recovering 1 (Inl (HTTPError 503 ''Service Unavailable''))
        (Inl (HTTPError 403 ''Forbidden''))) log_sleep LAMBDA_FUNCTION_URL 15 0 (world log_updater)))) = Some False"
    by (simp add: defs)
  have h11b: "health_verdict
     (fst ((recovering 1 (Inl (HTTPError 503 ''Service Unavailable''))
        (Inl (HTTPError 403 ''Forbidden''))) LAMBDA_FUNCTION_URL
            (after_retries (recovering 1 (Inl (HTTPError 503 ''Service Unavailable''))
        (Inl (HTTPError 403 ''Forbidden''))) log_sleep LAMBDA_FUNCTION_URL 15 1 (world log_updater)))) = Some True"
    by (simp add: defs)
  have h12a: "health_verdict
     (fst ((recovering 1 (Inl (URLError ''timed out'')) (Inr 200)) (''https://'' @ ROUTE53_DOMAIN @ ''/'')
            (after_retries (recovering 1 (Inl (URLError ''timed out'')) (Inr 200)) log_sleep (''https://'' @ ROUTE53_DOMAIN @ ''/'') 20 0 (world log_updater)))) = Some False"
    by (simp add: defs)
  have h12b: "health_verdict
     (fst ((recovering 1 (Inl (URLError ''timed out'')) (Inr 200)) (''https://'' @ ROUTE53_DOMAIN @ ''/'')
            (after_retries (recovering 1 (Inl (URLError ''timed out'')) (Inr 200)) log_sleep (''https://'' @ ROUTE53_DOMAIN @ ''/'') 20 1 (world log_updater)))) = Some True"
    by (simp add: defs)
  have hva: "verify_verdict
     (fst ((recovering 1 (Inl (RequestException ''connection refused'')) (Inr 200)) (''https://'' @ ''pyrepl.dev'')
            (after_retries (recovering 1 (Inl (RequestException ''connection refused'')) (Inr 200)) log_sleep (''https://'' @ ''pyrepl.dev'') 30 0 (world log_object)))) = Some False"
    by (simp add: defs)
  have hvb: "verify_verdict
     (fst ((recovering 1 (Inl (RequestException ''connection refused'')) (Inr 200)) (''https://'' @ ''pyrepl.dev'')
            (after_retries (recovering 1 (Inl (RequestException ''connection refused'')) (Inr 200)) log_sleep (''https://'' @ ''pyrepl.dev'') 30 1 (world log_object)))) = Some True"
    by (simp add: defs)
  have a11: "\<forall>j<1. health_verdict
     (fst ((recovering 1 (Inl (HTTPError 503 ''Service Unavailable''))
        (Inl (HTTPError 403 ''Forbidden''))) LAMBDA_FUNCTION_URL
            (after_retries (recovering 1 (Inl (HTTPError 503 ''Service Unavailable''))
        (Inl (HTTPError 403 ''Forbidden''))) log_sleep LAMBDA_FUNCTION_URL 15 j (world log_updater)))) = Some False"
    by (simp add: defs)
  have a12: "\<forall>j<1. health_verdict
     (fst ((recovering 1 (Inl (URLError ''timed out'')) (Inr 200)) (''https://'' @ ROUTE53_DOMAIN @ ''/'')
            (after_retries (recovering 1 (Inl (URLError ''timed out'')) (Inr 200)) log_sleep (''https://'' @ ROUTE53_DOMAIN @ ''/'') 20 j (world log_updater)))) = Some False"
    by (simp add: defs)
  have av: "\<forall>j<1. verify_verdict
     (fst ((recovering 1 (Inl (RequestException ''connection refused'')) (Inr 200)) (''https://'' @ ''pyrepl.dev'')
            (after_retries (recovering 1 (Inl (RequestException ''connection refused'')) (Inr 200)) log_sleep (''https://'' @ ''pyrepl.dev'') 30 j (world log_object)))) = Some False"
    by (simp add: defs)
  have c11: "stage_11_health_check_lambda_url (recovering 1 (Inl (HTTPError 503 ''Service Unavailable''))
        (Inl (HTTPError 403 ''Forbidden''))) log_sleep log_updater =
     (Inr True,
      log_updater\<lparr>world :=
        after_requests (recovering 1 (Inl (HTTPError 503 ''Service Unavailable''))
        (Inl (HTTPError 403 ''Forbidden''))) log_sleep LAMBDA_FUNCTION_URL 15 (1 + 1) (world log_updater)\<rparr>)"
    by (rule health_check_policy [where k = 1 and self = log_updater and sleep = log_sleep
          and urlopen = "recovering 1 (Inl (HTTPError 503 ''Service Unavailable''))
        (Inl (HTTPError 403 ''Forbidden''))",
          THEN conjunct1, THEN mp, THEN mp, THEN mp, OF lt a11 h11b])
  have c12: "stage_12_health_check_public_domain (recovering 1 (Inl (URLError ''timed out'')) (Inr 200)) log_sleep log_updater =
     (Inr True,
      log_updater\<lparr>world :=
        after_requests (recovering 1 (Inl (URLError ''timed out'')) (Inr 200)) log_sleep (''https://'' @ ROUTE53_DOMAIN @ ''/'') 20 (1 + 1) (world log_updater)\<rparr>)"
    by (rule health_check_policy [where k = 1 and self = log_updater and sleep = log_sleep
          and urlopen = "recovering 1 (Inl (URLError ''timed out'')) (Inr 200)",
          THEN conjunct2, THEN conjunct1, THEN mp, THEN mp, THEN mp, OF lt a12 h12b])
  have cv: "verify_deployment (recovering 1 (Inl (RequestException ''connection refused'')) (Inr 200)) log_sleep ''pyrepl.dev'' 5 30 log_object =
     (Inr True,
      log_object\<lparr>world :=
        after_requests (recovering 1 (Inl (RequestException ''connection refused'')) (Inr 200)) log_sleep (''https://'' @ ''pyrepl.dev'') 30 (1 + 1) (world log_object)\<rparr>)"
    by (rule health_check_policy [where k = 1 and N = 5 and obj = log_object
          and sleep = log_sleep and domain = "''pyrepl.dev''" and delay = 30
          and requests_get = "recovering 1 (Inl (RequestException ''connection refused'')) (Inr 200)",
          THEN conjunct2, THEN conjunct2, THEN conjunct1, THEN mp, THEN mp, THEN mp,
          OF lt av hvb])
  have r11: "stage_11_health_check_lambda_url (recovering 1 (Inl (HTTPError 503 ''Service Unavailable''))
        (Inl (HTTPError 403 ''Forbidden''))) log_sleep log_updater =
     (Inr True,
      log_updater\<lparr>world := [Get LAMBDA_FUNCTION_URL, Sleep 15, Get LAMBDA_FUNCTION_URL]\<rparr>)"
    using c11 by (simp add: defs)
  have r12: "stage_12_health_check_public_domain (recovering 1 (Inl (URLError ''timed out'')) (Inr 200)) log_sleep log_updater =
     (Inr True,
      log_updater\<lparr>world := [Get ''https://pyrepl.dev/'', Sleep 20, Get ''https://pyrepl.dev/'']\<rparr>)"
    using c12 by (simp add: defs)
  have rv: "verify_deployment (recovering 1 (Inl (RequestException ''connection refused'')) (Inr 200)) log_sleep ''pyrepl.dev'' 5 30 log_object =
     (Inr True,
      log_object\<lparr>world := [Get ''https://pyrepl.dev'', Sleep 30, Get ''https://pyrepl.dev'']\<rparr>)"
    using cv by (simp add: defs)
  show ?thesis
    by (intro conjI lt h11a h11b r11 h12a h12b r12 hva hvb rv)
qed

end
